theory Spec2Isabelle
  imports Main "HOL-Library.Word"
begin

unbundle bit_operations_syntax

section \<open>Rollout resolver (storagemode.go)\<close>

text \<open>
  The three mode names are string constants of the package. The process-wide
  configuration is the pair of package variables \<open>StorageMode\<close> and
  \<open>StorageModeRolloutPercent\<close>; it is passed explicitly.
\<close>

definition StorageModeLegacy :: string where
  "StorageModeLegacy = ''legacy''"

definition StorageModeTransition :: string where
  "StorageModeTransition = ''transition''"

definition StorageModeBundle :: string where
  "StorageModeBundle = ''bundle''"

definition StorageModeEnv :: string where
  "StorageModeEnv = ''CERTMAGIC_STORAGE_MODE''"

definition StorageModeRolloutPercentEnv :: string where
  "StorageModeRolloutPercentEnv = ''CERTMAGIC_STORAGE_MODE_ROLLOUT_PERCENT''"

record config =
  StorageMode :: string
  StorageModeRolloutPercent :: int

definition ConfigureStorageMode :: "string \<Rightarrow> int \<Rightarrow> config" where
  "ConfigureStorageMode mode rolloutPercent =
     \<lparr>StorageMode = mode, StorageModeRolloutPercent = rolloutPercent\<rparr>"

text \<open>
  \<open>hash/fnv\<close>'s 32-bit FNV-1a: start from the offset basis, and for every byte
  xor it into the hash and multiply by the prime, in \<open>uint32\<close> arithmetic.
\<close>

definition fnv_offset32 :: "32 word" where
  "fnv_offset32 = 2166136261"

definition fnv_prime32 :: "32 word" where
  "fnv_prime32 = 16777619"

definition fnv32a_step :: "32 word \<Rightarrow> char \<Rightarrow> 32 word" where
  "fnv32a_step h c = (h XOR of_nat (of_char c)) * fnv_prime32"

definition fnv32a :: "string \<Rightarrow> 32 word" where
  "fnv32a domain = foldl fnv32a_step fnv_offset32 domain"

definition RolloutBucketForDomain :: "string \<Rightarrow> int" where
  "RolloutBucketForDomain domain = uint (fnv32a domain mod 100)"

definition StorageModeForDomain :: "config \<Rightarrow> string \<Rightarrow> string" where
  "StorageModeForDomain g domain =
     (if StorageMode g = StorageModeBundle then StorageModeBundle
      else if StorageMode g \<noteq> StorageModeTransition then StorageModeLegacy
      else if RolloutBucketForDomain domain < StorageModeRolloutPercent g
        then StorageModeTransition
      else StorageModeLegacy)"

text \<open>
  \<open>init\<close> reads the two environment variables. \<open>os.Getenv\<close> is a function from
  names to values (the empty string for an unset variable); \<open>strconv.Atoi\<close> with
  its error dropped is a function from strings to integers.
\<close>

definition init :: "(string \<Rightarrow> string) \<Rightarrow> (string \<Rightarrow> int) \<Rightarrow> config" where
  "init getenv atoi =
     (let mode = getenv StorageModeEnv;
          rolloutPercent = atoi (getenv StorageModeRolloutPercentEnv)
      in ConfigureStorageMode mode rolloutPercent)"

section \<open>The certificate store (bundle.go)\<close>

subsection \<open>Data\<close>

text \<open>
  Byte slices are lists of 8-bit characters. A \<open>time.Time\<close> is an offset from the zero
  instant, so \<open>IsZero\<close> is equality with 0. Go errors are values of \<open>err\<close>:
  \<open>fs.ErrNotExist\<close>, an opaque error raised by a collaborator, \<open>fmt.Errorf\<close> with a
  message prefix around an inner error, and \<open>errors.Join\<close>. A function whose Go result
  is \<open>error\<close> alone returns \<open>err + unit\<close>.
\<close>

type_synonym bytes = string

type_synonym time = int

definition IsZero :: "time \<Rightarrow> bool" where
  "IsZero t \<longleftrightarrow> t = 0"

datatype err =
    ErrNotExist
  | Opaque string
  | Errorf string err
  | Join "err list"

definition BundleVersion :: int where
  "BundleVersion = 1"

record CertificateBundle =
  Version :: int
  SANs :: "string list"
  CertificatePEM :: bytes
  PrivateKeyPEM :: bytes
  IssuerData :: bytes
  CreatedAt :: time
  UpdatedAt :: time

record CertificateResource =
  SANs :: "string list"
  CertificatePEM :: bytes
  PrivateKeyPEM :: bytes
  IssuerData :: bytes
  issuerKey :: string

datatype level = DebugLevel | InfoLevel | WarnLevel | ErrorLevel

type_synonym log_entry = "level \<times> string \<times> string list"

subsection \<open>The storage capability\<close>

text \<open>
  Modelled from the spec: the \<open>Storage\<close> interface is declared outside the files at
  hand. It is a key/value store with \<open>Load\<close>, \<open>Store\<close>, \<open>Exists\<close> and \<open>Delete\<close>;
  a key absent on \<open>Load\<close> is the not-found condition, every other failure is
  backend-specific. The backend's failures are part of the state: for each key, the
  error (if any) that loading, storing or deleting that key meets. A failed operation
  leaves the items as they were.
\<close>

record Storage =
  items :: "string \<rightharpoonup> bytes"
  load_fault :: "string \<Rightarrow> err option"
  store_fault :: "string \<Rightarrow> err option"
  delete_fault :: "string \<Rightarrow> err option"

definition storage_Load :: "Storage \<Rightarrow> string \<Rightarrow> err + bytes" where
  "storage_Load s key =
     (case load_fault s key of
        Some e \<Rightarrow> Inl e
      | None \<Rightarrow> (case items s key of None \<Rightarrow> Inl ErrNotExist | Some v \<Rightarrow> Inr v))"

definition storage_Store :: "Storage \<Rightarrow> string \<Rightarrow> bytes \<Rightarrow> (err + unit) \<times> Storage" where
  "storage_Store s key v =
     (case store_fault s key of
        Some e \<Rightarrow> (Inl e, s)
      | None \<Rightarrow> (Inr (), s\<lparr>items := (items s)(key \<mapsto> v)\<rparr>))"

definition storage_Exists :: "Storage \<Rightarrow> string \<Rightarrow> bool" where
  "storage_Exists s key \<longleftrightarrow> items s key \<noteq> None"

definition storage_Delete :: "Storage \<Rightarrow> string \<Rightarrow> (err + unit) \<times> Storage" where
  "storage_Delete s key =
     (case delete_fault s key of
        Some e \<Rightarrow> (Inl e, s)
      | None \<Rightarrow> (Inr (), s\<lparr>items := (items s)(key := None)\<rparr>))"

text \<open>
  Modelled from the spec: \<open>storeTx\<close> is defined elsewhere in the package. It writes the
  keys in the order given; when a write fails it reports that failure after a
  best-effort removal of the keys already written, most recent first.
\<close>

fun rollback :: "Storage \<Rightarrow> string list \<Rightarrow> Storage" where
  "rollback s [] = s"
| "rollback s (key # keys) = rollback (snd (storage_Delete s key)) keys"

fun storeTx_from :: "Storage \<Rightarrow> string list \<Rightarrow> (string \<times> bytes) list \<Rightarrow> (err + unit) \<times> Storage" where
  "storeTx_from s written [] = (Inr (), s)"
| "storeTx_from s written ((key, v) # rest) =
     (case storage_Store s key v of
        (Inl e, s') \<Rightarrow> (Inl e, rollback s' written)
      | (Inr _, s') \<Rightarrow> storeTx_from s' (key # written) rest)"

definition storeTx :: "Storage \<Rightarrow> (string \<times> bytes) list \<Rightarrow> (err + unit) \<times> Storage" where
  "storeTx s all = storeTx_from s [] all"

subsection \<open>Collaborators taken as parameters\<close>

text \<open>
  The key namespace (\<open>StorageKeys\<close>), \<open>CertificateResource.NamesKey\<close>,
  \<open>idna.ToASCII\<close> and the JSON encoder and decoder are used by the store and defined
  elsewhere; the store is parameterised by them. \<open>MarshalBundle\<close> and
  \<open>UnmarshalBundle\<close> are \<open>json.MarshalIndent\<close> and \<open>json.Unmarshal\<close> at type
  \<open>CertificateBundle\<close> (decoding into a fresh value); \<open>MarshalResource\<close> and
  \<open>UnmarshalResource\<close> are the same at type \<open>CertificateResource\<close>, where decoding
  fills a value that already exists.
\<close>

record deps =
  SiteBundle :: "string \<Rightarrow> string \<Rightarrow> string"
  SiteCert :: "string \<Rightarrow> string \<Rightarrow> string"
  SitePrivateKey :: "string \<Rightarrow> string \<Rightarrow> string"
  SiteMeta :: "string \<Rightarrow> string \<Rightarrow> string"
  CertsSitePrefix :: "string \<Rightarrow> string \<Rightarrow> string"
  NamesKey :: "CertificateResource \<Rightarrow> string"
  ToASCII :: "string \<Rightarrow> err + string"
  MarshalBundle :: "CertificateBundle \<Rightarrow> err + bytes"
  UnmarshalBundle :: "bytes \<Rightarrow> err + CertificateBundle"
  MarshalResource :: "CertificateResource \<Rightarrow> err + bytes"
  UnmarshalResource :: "bytes \<Rightarrow> CertificateResource \<Rightarrow> err + CertificateResource"

subsection \<open>The store\<close>

record CertStore =
  storage :: Storage
  logger :: "log_entry list"
  mode :: string

definition NewCertStoreWithMode :: "Storage \<Rightarrow> string \<Rightarrow> CertStore" where
  "NewCertStoreWithMode st m = \<lparr>storage = st, logger = [], mode = m\<rparr>"

definition log_to :: "CertStore \<Rightarrow> log_entry \<Rightarrow> CertStore" where
  "log_to cs entry = cs\<lparr>logger := logger cs @ [entry]\<rparr>"

definition saveBundle ::
  "deps \<Rightarrow> time \<Rightarrow> CertStore \<Rightarrow> string \<Rightarrow> string \<Rightarrow> CertificateResource \<Rightarrow> (err + unit) \<times> CertStore" where
  "saveBundle d now cs issuer certKey res =
     (let bundle = \<lparr>Version = BundleVersion,
                     CertificateBundle.SANs = SANs res,
                     CertificateBundle.CertificatePEM = CertificatePEM res,
                     CertificateBundle.PrivateKeyPEM = PrivateKeyPEM res,
                     CertificateBundle.IssuerData = IssuerData res,
                     CreatedAt = 0,
                     UpdatedAt = now\<rparr>;
          bundleKey = SiteBundle d issuer certKey;
          bundle1 = (case storage_Load (storage cs) bundleKey of
                       Inr existingData \<Rightarrow>
                         (case UnmarshalBundle d existingData of
                            Inr existing \<Rightarrow> bundle\<lparr>CreatedAt := CreatedAt existing\<rparr>
                          | Inl _ \<Rightarrow> bundle)
                     | Inl _ \<Rightarrow> bundle);
          bundle2 = (if IsZero (CreatedAt bundle1)
                     then bundle1\<lparr>CreatedAt := UpdatedAt bundle1\<rparr> else bundle1)
      in case MarshalBundle d bundle2 of
           Inl e \<Rightarrow> (Inl (Errorf ''encoding certificate bundle'' e), cs)
         | Inr bundleBytes \<Rightarrow>
             (case storage_Store (storage cs) bundleKey bundleBytes of
                (Inl e, st) \<Rightarrow> (Inl (Errorf ''storing certificate bundle'' e), cs\<lparr>storage := st\<rparr>)
              | (Inr _, st) \<Rightarrow> (Inr (), cs\<lparr>storage := st\<rparr>)))"

definition saveLegacy ::
  "deps \<Rightarrow> CertStore \<Rightarrow> string \<Rightarrow> string \<Rightarrow> CertificateResource \<Rightarrow> (err + unit) \<times> CertStore" where
  "saveLegacy d cs issuer certKey res =
     (case MarshalResource d \<lparr>SANs = SANs res, CertificatePEM = [], PrivateKeyPEM = [],
                               IssuerData = IssuerData res, issuerKey = []\<rparr> of
        Inl e \<Rightarrow> (Inl (Errorf ''encoding certificate metadata'' e), cs)
      | Inr metaBytes \<Rightarrow>
          (let all = [(SitePrivateKey d issuer certKey, PrivateKeyPEM res),
                      (SiteCert d issuer certKey, CertificatePEM res),
                      (SiteMeta d issuer certKey, metaBytes)]
           in case storeTx (storage cs) all of (r, st) \<Rightarrow> (r, cs\<lparr>storage := st\<rparr>)))"

fun deleteLegacyLoop :: "CertStore \<Rightarrow> string list \<Rightarrow> CertStore" where
  "deleteLegacyLoop cs [] = cs"
| "deleteLegacyLoop cs (key # keys) =
     (if storage_Exists (storage cs) key
      then (case storage_Delete (storage cs) key of
              (Inl e, st) \<Rightarrow>
                deleteLegacyLoop
                  (log_to (cs\<lparr>storage := st\<rparr>) (DebugLevel, ''could not delete legacy file'', [key]))
                  keys
            | (Inr _, st) \<Rightarrow>
                deleteLegacyLoop
                  (log_to (cs\<lparr>storage := st\<rparr>) (DebugLevel, ''deleted legacy file'', [key]))
                  keys)
      else deleteLegacyLoop cs keys)"

definition deleteLegacyFiles :: "deps \<Rightarrow> CertStore \<Rightarrow> string \<Rightarrow> string \<Rightarrow> CertStore" where
  "deleteLegacyFiles d cs issuer certKey =
     (let legacyFiles = [SiteCert d issuer certKey,
                         SitePrivateKey d issuer certKey,
                         SiteMeta d issuer certKey]
      in deleteLegacyLoop cs legacyFiles)"

definition Save ::
  "deps \<Rightarrow> time \<Rightarrow> CertStore \<Rightarrow> string \<Rightarrow> CertificateResource \<Rightarrow> (err + unit) \<times> CertStore" where
  "Save d now cs issuer res =
     (let certKey = NamesKey d res
      in if mode cs = StorageModeLegacy then saveLegacy d cs issuer certKey res
         else if mode cs = StorageModeTransition then
           (case saveBundle d now cs issuer certKey res of
              (Inl e, cs') \<Rightarrow> (Inl e, cs')
            | (Inr _, cs') \<Rightarrow> saveLegacy d cs' issuer certKey res)
         else if mode cs = StorageModeBundle then
           (case saveBundle d now cs issuer certKey res of
              (Inl e, cs') \<Rightarrow> (Inl e, cs')
            | (Inr _, cs') \<Rightarrow> (Inr (), deleteLegacyFiles d cs' issuer certKey))
         else saveLegacy d cs issuer certKey res)"

definition decodeBundle ::
  "deps \<Rightarrow> CertStore \<Rightarrow> bytes \<Rightarrow> string \<Rightarrow> (err + CertificateResource) \<times> CertStore" where
  "decodeBundle d cs data issuer =
     (case UnmarshalBundle d data of
        Inl e \<Rightarrow> (Inl (Errorf ''decoding certificate bundle'' e), cs)
      | Inr bundle \<Rightarrow>
          (let cs' = (if Version bundle > BundleVersion
                      then log_to cs (WarnLevel, ''bundle version is newer than supported'', [])
                      else cs)
           in (Inr \<lparr>SANs = CertificateBundle.SANs bundle,
                    CertificatePEM = CertificateBundle.CertificatePEM bundle,
                    PrivateKeyPEM = CertificateBundle.PrivateKeyPEM bundle,
                    IssuerData = CertificateBundle.IssuerData bundle,
                    issuerKey = issuer\<rparr>, cs')))"

definition loadLegacy ::
  "deps \<Rightarrow> CertStore \<Rightarrow> string \<Rightarrow> string \<Rightarrow> err + CertificateResource" where
  "loadLegacy d cs issuer normalizedName =
     (let certRes = \<lparr>SANs = [], CertificatePEM = [], PrivateKeyPEM = [], IssuerData = [],
                     issuerKey = issuer\<rparr>
      in case storage_Load (storage cs) (SitePrivateKey d issuer normalizedName) of
           Inl e \<Rightarrow> Inl e
         | Inr keyBytes \<Rightarrow>
             (case storage_Load (storage cs) (SiteCert d issuer normalizedName) of
                Inl e \<Rightarrow> Inl e
              | Inr certBytes \<Rightarrow>
                  (case storage_Load (storage cs) (SiteMeta d issuer normalizedName) of
                     Inl e \<Rightarrow> Inl e
                   | Inr metaBytes \<Rightarrow>
                       (case UnmarshalResource d metaBytes
                               (certRes\<lparr>PrivateKeyPEM := keyBytes, CertificatePEM := certBytes\<rparr>) of
                          Inl e \<Rightarrow> Inl (Errorf ''decoding certificate metadata'' e)
                        | Inr certRes' \<Rightarrow> Inr certRes'))))"

definition Load ::
  "deps \<Rightarrow> CertStore \<Rightarrow> string \<Rightarrow> string \<Rightarrow> (err + CertificateResource) \<times> CertStore" where
  "Load d cs issuer certNamesKey =
     (case ToASCII d certNamesKey of
        Inl e \<Rightarrow> (Inl (Errorf ''converting to ASCII'' e), cs)
      | Inr normalizedName \<Rightarrow>
          (if mode cs = StorageModeLegacy then (loadLegacy d cs issuer normalizedName, cs)
           else if mode cs = StorageModeTransition \<or> mode cs = StorageModeBundle then
             (case storage_Load (storage cs) (SiteBundle d issuer normalizedName) of
                Inr bundleData \<Rightarrow> decodeBundle d cs bundleData issuer
              | Inl _ \<Rightarrow> (loadLegacy d cs issuer normalizedName, cs))
           else (loadLegacy d cs issuer normalizedName, cs)))"

definition legacyExists :: "deps \<Rightarrow> CertStore \<Rightarrow> string \<Rightarrow> string \<Rightarrow> bool" where
  "legacyExists d cs issuer normalizedName \<longleftrightarrow>
     storage_Exists (storage cs) (SiteCert d issuer normalizedName) \<and>
     storage_Exists (storage cs) (SitePrivateKey d issuer normalizedName) \<and>
     storage_Exists (storage cs) (SiteMeta d issuer normalizedName)"

definition Exists :: "deps \<Rightarrow> CertStore \<Rightarrow> string \<Rightarrow> string \<Rightarrow> bool" where
  "Exists d cs issuer domain =
     (case ToASCII d domain of
        Inl e \<Rightarrow> False
      | Inr normalizedName \<Rightarrow>
          (if mode cs = StorageModeLegacy then legacyExists d cs issuer normalizedName
           else if mode cs = StorageModeTransition \<or> mode cs = StorageModeBundle then
             (if storage_Exists (storage cs) (SiteBundle d issuer normalizedName) then True
              else legacyExists d cs issuer normalizedName)
           else legacyExists d cs issuer normalizedName))"

definition Delete :: "deps \<Rightarrow> CertStore \<Rightarrow> string \<Rightarrow> string \<Rightarrow> (err + unit) \<times> CertStore" where
  "Delete d cs issuer domain =
     (case ToASCII d domain of
        Inl e \<Rightarrow> (Inl (Errorf ''converting to ASCII'' e), cs)
      | Inr normalizedName \<Rightarrow>
          (let bundleKey = SiteBundle d issuer normalizedName;
               (errs, cs1) =
                 (if storage_Exists (storage cs) bundleKey
                  then (case storage_Delete (storage cs) bundleKey of
                          (Inl e, st) \<Rightarrow> ([Errorf ''deleting bundle'' e], cs\<lparr>storage := st\<rparr>)
                        | (Inr _, st) \<Rightarrow> ([], cs\<lparr>storage := st\<rparr>))
                  else ([], cs));
               cs2 = deleteLegacyFiles d cs1 issuer normalizedName;
               sitePrefix = CertsSitePrefix d issuer normalizedName;
               cs3 =
                 (if storage_Exists (storage cs2) sitePrefix
                  then (case storage_Delete (storage cs2) sitePrefix of
                          (Inl e, st) \<Rightarrow>
                            log_to (cs2\<lparr>storage := st\<rparr>)
                              (DebugLevel, ''could not delete site folder'', [sitePrefix])
                        | (Inr _, st) \<Rightarrow> cs2\<lparr>storage := st\<rparr>)
                  else cs2)
           in if length errs > 0 then (Inl (Join errs), cs3) else (Inr (), cs3)))"

definition UpdateMetadata ::
  "deps \<Rightarrow> time \<Rightarrow> CertStore \<Rightarrow> string \<Rightarrow> string \<Rightarrow> (bytes \<Rightarrow> err + bytes) \<Rightarrow>
     (err + unit) \<times> CertStore" where
  "UpdateMetadata d now cs issuer domain updateFn =
     (case ToASCII d domain of
        Inl e \<Rightarrow> (Inl (Errorf ''converting to ASCII'' e), cs)
      | Inr normalizedName \<Rightarrow>
          (case Load d cs issuer normalizedName of
             (Inl e, cs1) \<Rightarrow> (Inl (Errorf ''loading certificate for metadata update'' e), cs1)
           | (Inr certRes, cs1) \<Rightarrow>
               (case updateFn (IssuerData certRes) of
                  Inl e \<Rightarrow> (Inl (Errorf ''updating metadata'' e), cs1)
                | Inr newIssuerData \<Rightarrow>
                    Save d now cs1 issuer (certRes\<lparr>IssuerData := newIssuerData\<rparr>))))"

definition LoadPrivateKey :: "deps \<Rightarrow> CertStore \<Rightarrow> string \<Rightarrow> string \<Rightarrow> err + bytes" where
  "LoadPrivateKey d cs issuer domain =
     (case ToASCII d domain of
        Inl e \<Rightarrow> Inl (Errorf ''converting to ASCII'' e)
      | Inr normalizedName \<Rightarrow>
          (if mode cs = StorageModeLegacy
           then storage_Load (storage cs) (SitePrivateKey d issuer normalizedName)
           else if mode cs = StorageModeTransition \<or> mode cs = StorageModeBundle then
             (case storage_Load (storage cs) (SiteBundle d issuer normalizedName) of
                Inr bundleData \<Rightarrow>
                  (case UnmarshalBundle d bundleData of
                     Inl e \<Rightarrow> Inl (Errorf ''decoding bundle'' e)
                   | Inr bundle \<Rightarrow> Inr (CertificateBundle.PrivateKeyPEM bundle))
              | Inl _ \<Rightarrow> storage_Load (storage cs) (SitePrivateKey d issuer normalizedName))
           else storage_Load (storage cs) (SitePrivateKey d issuer normalizedName)))"

definition Migrate ::
  "deps \<Rightarrow> time \<Rightarrow> CertStore \<Rightarrow> string \<Rightarrow> string \<Rightarrow> (err + unit) \<times> CertStore" where
  "Migrate d now cs issuer domain =
     (case ToASCII d domain of
        Inl e \<Rightarrow> (Inl (Errorf ''converting to ASCII'' e), cs)
      | Inr normalizedName \<Rightarrow>
          (if storage_Exists (storage cs) (SiteBundle d issuer normalizedName) then (Inr (), cs)
           else if \<not> storage_Exists (storage cs) (SiteCert d issuer normalizedName)
             then (Inl ErrNotExist, cs)
           else
             (case loadLegacy d cs issuer normalizedName of
                Inl e \<Rightarrow> (Inl (Errorf ''loading legacy certificate'' e), cs)
              | Inr certRes \<Rightarrow>
                  (case saveBundle d now cs issuer normalizedName certRes of
                     (Inl e, cs1) \<Rightarrow> (Inl (Errorf ''saving as bundle'' e), cs1)
                   | (Inr _, cs1) \<Rightarrow>
                       (Inr (),
                        log_to (deleteLegacyFiles d cs1 issuer normalizedName)
                          (InfoLevel, ''migrated certificate to bundle format'',
                           [domain, issuer]))))))"

text \<open>
  The bundle that \<open>saveBundle\<close> hands to the encoder, as a function of the store before
  the write; \<open>saveBundle_eq\<close> below shows that it is.
\<close>

definition written_bundle ::
  "deps \<Rightarrow> time \<Rightarrow> CertStore \<Rightarrow> string \<Rightarrow> string \<Rightarrow> CertificateResource \<Rightarrow> CertificateBundle" where
  "written_bundle d now cs issuer certKey res =
     \<lparr>Version = BundleVersion,
      CertificateBundle.SANs = SANs res,
      CertificateBundle.CertificatePEM = CertificatePEM res,
      CertificateBundle.PrivateKeyPEM = PrivateKeyPEM res,
      CertificateBundle.IssuerData = IssuerData res,
      CreatedAt =
        (case storage_Load (storage cs) (SiteBundle d issuer certKey) of
           Inr data \<Rightarrow>
             (case UnmarshalBundle d data of
                Inr existing \<Rightarrow> if IsZero (CreatedAt existing) then now else CreatedAt existing
              | Inl _ \<Rightarrow> now)
         | Inl _ \<Rightarrow> now),
      UpdatedAt = now\<rparr>"

subsection \<open>The mode of a new store\<close>

text \<open>
  \<open>GetStorageMode\<close> lower-cases the environment value and keeps it when it is one of
  the three names. \<open>strings.ToLower\<close> maps the bytes \<open>A\<close> to \<open>Z\<close> when the string is
  ASCII only, and otherwise maps every rune through the Unicode tables; that second
  mapping is a parameter.
\<close>

definition ascii_lower :: "char \<Rightarrow> char" where
  "ascii_lower c =
     (if (65::nat) \<le> of_char c \<and> of_char c \<le> (90::nat)
      then char_of (of_char c + (32::nat)) else c)"

definition ToLower :: "(string \<Rightarrow> string) \<Rightarrow> string \<Rightarrow> string" where
  "ToLower unicode_lower s =
     (if \<forall>c \<in> set s. of_char c < (128::nat) then map ascii_lower s else unicode_lower s)"

definition GetStorageMode :: "(string \<Rightarrow> string) \<Rightarrow> (string \<Rightarrow> string) \<Rightarrow> string" where
  "GetStorageMode unicode_lower getenv =
     (let m = ToLower unicode_lower (getenv StorageModeEnv)
      in if m = StorageModeLegacy \<or> m = StorageModeTransition \<or> m = StorageModeBundle
         then m else StorageModeLegacy)"

definition NewCertStore :: "(string \<Rightarrow> string) \<Rightarrow> (string \<Rightarrow> string) \<Rightarrow> Storage \<Rightarrow> CertStore" where
  "NewCertStore unicode_lower getenv st =
     \<lparr>storage = st, logger = [], mode = GetStorageMode unicode_lower getenv\<rparr>"

section \<open>The lock lease renewer\<close>

text \<open>
  Modelled from the spec: \<open>renewLockLease\<close>, the table \<open>retryIntervals\<close>,
  \<open>maxRetryDuration\<close> and the certificate obtain timeout are defined elsewhere
  in the package (only a test of them is present). The renewer keeps a fixed ordered sequence
  of retry intervals for increasing attempt numbers and uses a fixed maximum interval
  once the attempt number is past the sequence. The lease duration requested on a
  renewal is the retry interval of the attempt plus the obtain timeout. A storage
  without the lease capability makes the renewal a successful no-op; a failing renewal
  is returned to the caller. The result is paired with the request made of the storage,
  if any: the lock key and the duration.
\<close>

record lease_config =
  retryIntervals :: "int list"
  maxRetryDuration :: int
  CertObtainTimeout :: int

definition retryInterval :: "lease_config \<Rightarrow> nat \<Rightarrow> int" where
  "retryInterval cfg attempt =
     (if attempt < length (retryIntervals cfg) then retryIntervals cfg ! attempt
      else maxRetryDuration cfg)"

definition renewLockLease ::
  "lease_config \<Rightarrow> (string \<Rightarrow> int \<Rightarrow> err + unit) option \<Rightarrow> string \<Rightarrow> nat \<Rightarrow>
     (err + unit) \<times> (string \<times> int) option" where
  "renewLockLease cfg renewer lockKey attempt =
     (case renewer of
        None \<Rightarrow> (Inr (), None)
      | Some RenewLockLease \<Rightarrow>
          (let leaseDuration = retryInterval cfg attempt + CertObtainTimeout cfg
           in (RenewLockLease lockKey leaseDuration, Some (lockKey, leaseDuration))))"

section \<open>A concrete instance of the collaborators\<close>

text \<open>
  For evaluating the store on concrete inputs: keys built from issuer and name with a
  suffix per artifact, names joined from the SANs with commas, a normalisation of
  names, and a length-prefixed encoding of bundles and
  metadata in place of JSON (numbers in unary, every field preceded by its length).
\<close>

definition enc_nat :: "nat \<Rightarrow> string" where
  "enc_nat n = replicate n CHR ''1'' @ ''0''"

definition dec_nat :: "string \<Rightarrow> (nat \<times> string) option" where
  "dec_nat bs =
     (case dropWhile (\<lambda>c. c = CHR ''1'') bs of
        [] \<Rightarrow> None
      | c # rest \<Rightarrow>
          if c = CHR ''0'' then Some (length (takeWhile (\<lambda>c. c = CHR ''1'') bs), rest)
          else None)"

definition enc_int :: "int \<Rightarrow> string" where
  "enc_int i = (if i < 0 then CHR ''-'' else CHR ''+'') # enc_nat (nat \<bar>i\<bar>)"

definition dec_int :: "string \<Rightarrow> (int \<times> string) option" where
  "dec_int bs =
     (case bs of
        [] \<Rightarrow> None
      | c # r \<Rightarrow>
          if c = CHR ''-'' then map_option (\<lambda>(n, r'). (- int n, r')) (dec_nat r)
          else if c = CHR ''+'' then map_option (\<lambda>(n, r'). (int n, r')) (dec_nat r)
          else None)"

definition enc_str :: "string \<Rightarrow> string" where
  "enc_str s = enc_nat (length s) @ s"

definition dec_str :: "string \<Rightarrow> (string \<times> string) option" where
  "dec_str bs =
     (case dec_nat bs of
        None \<Rightarrow> None
      | Some (n, r) \<Rightarrow> if n \<le> length r then Some (take n r, drop n r) else None)"

fun dec_strs :: "nat \<Rightarrow> string \<Rightarrow> (string list \<times> string) option" where
  "dec_strs 0 bs = Some ([], bs)"
| "dec_strs (Suc n) bs =
     (case dec_str bs of
        None \<Rightarrow> None
      | Some (x, r) \<Rightarrow>
          (case dec_strs n r of None \<Rightarrow> None | Some (xs, r') \<Rightarrow> Some (x # xs, r')))"

definition enc_list :: "string list \<Rightarrow> string" where
  "enc_list xs = enc_nat (length xs) @ concat (map enc_str xs)"

definition dec_list :: "string \<Rightarrow> (string list \<times> string) option" where
  "dec_list bs = (case dec_nat bs of None \<Rightarrow> None | Some (n, r) \<Rightarrow> dec_strs n r)"

definition ex_MarshalBundle :: "CertificateBundle \<Rightarrow> err + bytes" where
  "ex_MarshalBundle b =
     Inr (enc_int (Version b) @ enc_list (CertificateBundle.SANs b)
          @ enc_str (CertificateBundle.CertificatePEM b)
          @ enc_str (CertificateBundle.PrivateKeyPEM b)
          @ enc_str (CertificateBundle.IssuerData b)
          @ enc_int (CreatedAt b) @ enc_int (UpdatedAt b))"

definition dec_bundle :: "bytes \<Rightarrow> CertificateBundle option" where
  "dec_bundle bs =
     Option.bind (dec_int bs) (\<lambda>(v, r1).
     Option.bind (dec_list r1) (\<lambda>(sans, r2).
     Option.bind (dec_str r2) (\<lambda>(cert, r3).
     Option.bind (dec_str r3) (\<lambda>(key, r4).
     Option.bind (dec_str r4) (\<lambda>(iss, r5).
     Option.bind (dec_int r5) (\<lambda>(c, r6).
     Option.bind (dec_int r6) (\<lambda>(u, r7).
       if r7 = [] then
         Some \<lparr>Version = v, CertificateBundle.SANs = sans,
               CertificateBundle.CertificatePEM = cert,
               CertificateBundle.PrivateKeyPEM = key,
               CertificateBundle.IssuerData = iss, CreatedAt = c, UpdatedAt = u\<rparr>
       else None)))))))"

definition ex_UnmarshalBundle :: "bytes \<Rightarrow> err + CertificateBundle" where
  "ex_UnmarshalBundle bs =
     (case dec_bundle bs of None \<Rightarrow> Inl (Opaque ''malformed bundle'') | Some b \<Rightarrow> Inr b)"

definition ex_MarshalResource :: "CertificateResource \<Rightarrow> err + bytes" where
  "ex_MarshalResource r = Inr (enc_list (SANs r) @ enc_str (IssuerData r))"

definition dec_meta :: "bytes \<Rightarrow> (string list \<times> bytes) option" where
  "dec_meta bs =
     Option.bind (dec_list bs) (\<lambda>(sans, r1).
     Option.bind (dec_str r1) (\<lambda>(iss, r2).
       if r2 = [] then Some (sans, iss) else None))"

definition ex_UnmarshalResource :: "bytes \<Rightarrow> CertificateResource \<Rightarrow> err + CertificateResource" where
  "ex_UnmarshalResource bs r =
     (case dec_meta bs of
        None \<Rightarrow> Inl (Opaque ''malformed metadata'')
      | Some (sans, iss) \<Rightarrow> Inr (r\<lparr>SANs := sans, IssuerData := iss\<rparr>))"

fun join_comma :: "string list \<Rightarrow> string" where
  "join_comma [] = []"
| "join_comma [x] = x"
| "join_comma (x # y # ys) = x @ '','' @ join_comma (y # ys)"

text \<open>
  \<open>idna.ToASCII\<close> leaves a name of ASCII bytes as it is and replaces a label with other
  bytes by its Punycode form. The instance knows one such name, the UTF-8 bytes of
  \<open>b\<close>, u-umlaut, \<open>cher.de\<close>, whose ASCII form is \<open>xn--bcher-kva.de\<close>.
\<close>

definition ex_idn_name :: string where
  "ex_idn_name = ''b'' @ [CHR 0xC3, CHR 0xBC] @ ''cher.de''"

definition ex_ToASCII :: "string \<Rightarrow> err + string" where
  "ex_ToASCII s =
     (if \<forall>c \<in> set s. of_char c < (128::nat) then Inr s
      else if s = ex_idn_name then Inr ''xn--bcher-kva.de''
      else Inl (Opaque ''idna''))"

definition ex_deps :: deps where
  "ex_deps =
     \<lparr>SiteBundle = (\<lambda>issuer name. issuer @ ''/'' @ name @ ''.bundle''),
      SiteCert = (\<lambda>issuer name. issuer @ ''/'' @ name @ ''.crt''),
      SitePrivateKey = (\<lambda>issuer name. issuer @ ''/'' @ name @ ''.key''),
      SiteMeta = (\<lambda>issuer name. issuer @ ''/'' @ name @ ''.json''),
      CertsSitePrefix = (\<lambda>issuer name. issuer @ ''/'' @ name),
      NamesKey = (\<lambda>r. join_comma (SANs r)),
      ToASCII = ex_ToASCII,
      MarshalBundle = ex_MarshalBundle,
      UnmarshalBundle = ex_UnmarshalBundle,
      MarshalResource = ex_MarshalResource,
      UnmarshalResource = ex_UnmarshalResource\<rparr>"

definition no_faults :: "(string \<rightharpoonup> bytes) \<Rightarrow> Storage" where
  "no_faults m =
     \<lparr>items = m, load_fault = (\<lambda>_. None), store_fault = (\<lambda>_. None),
      delete_fault = (\<lambda>_. None)\<rparr>"

definition ex_resource :: CertificateResource where
  "ex_resource =
     \<lparr>SANs = [''a.com''], CertificatePEM = ''C'', PrivateKeyPEM = ''K'', IssuerData = ''{}'',
      issuerKey = ''ca''\<rparr>"


definition ex_legacy_items :: "string \<rightharpoonup> bytes" where
  "ex_legacy_items =
     [''ca/a.com.key'' \<mapsto> ''K'', ''ca/a.com.crt'' \<mapsto> ''C'',
      ''ca/a.com.json'' \<mapsto> ''10111110a.com110{}'']"

definition ex_legacy_only :: "string \<Rightarrow> CertStore" where
  "ex_legacy_only m = \<lparr>storage = no_faults ex_legacy_items, logger = [], mode = m\<rparr>"

definition ex_undecodable :: "string \<Rightarrow> CertStore" where
  "ex_undecodable m =
     \<lparr>storage = no_faults (ex_legacy_items(''ca/a.com.bundle'' \<mapsto> ''garbage'')),
      logger = [], mode = m\<rparr>"

definition ex_bundle_bytes :: bytes where
  "ex_bundle_bytes = ''+1010111110a.com110C2110K2110{}+1110+111110''"

definition ex_bundled :: "string \<Rightarrow> CertStore" where
  "ex_bundled m =
     \<lparr>storage = no_faults (ex_legacy_items(''ca/a.com.bundle'' \<mapsto> ex_bundle_bytes)),
      logger = [], mode = m\<rparr>"

definition ex_delete_faults :: "string \<Rightarrow> err option" where
  "ex_delete_faults key =
     (if key = ''ca/a.com.crt'' \<or> key = ''ca/a.com'' then Some (Opaque ''io'') else None)"

definition ex_legacy_undeletable :: "string \<Rightarrow> CertStore" where
  "ex_legacy_undeletable m =
     \<lparr>storage = (no_faults (ex_legacy_items(''ca/a.com.bundle'' \<mapsto> ex_bundle_bytes,
                                             ''ca/a.com'' \<mapsto> [])))
                  \<lparr>delete_fault := ex_delete_faults\<rparr>,
      logger = [], mode = m\<rparr>"

definition ex_all_faults :: "string \<Rightarrow> err option" where
  "ex_all_faults key = Some (Opaque ''io'')"

definition ex_nothing_deletable :: "string \<Rightarrow> CertStore" where
  "ex_nothing_deletable m =
     \<lparr>storage = (no_faults (ex_legacy_items(''ca/a.com.bundle'' \<mapsto> ex_bundle_bytes)))
                  \<lparr>delete_fault := ex_all_faults\<rparr>,
      logger = [], mode = m\<rparr>"

definition ex_zero_created_bytes :: bytes where
  "ex_zero_created_bytes = ''+1010111110a.com110C2110K2110{}+0+111110''"

definition ex_zero_created :: "string \<Rightarrow> CertStore" where
  "ex_zero_created m =
     \<lparr>storage = no_faults [''ca/a.com.bundle'' \<mapsto> ex_zero_created_bytes],
      logger = [], mode = m\<rparr>"

definition ex_empty :: "string \<Rightarrow> CertStore" where
  "ex_empty m = \<lparr>storage = no_faults Map.empty, logger = [], mode = m\<rparr>"

text \<open>
  Two update functions for the issuer data: one that replaces it, one that fails.
\<close>

definition ex_update :: "bytes \<Rightarrow> err + bytes" where
  "ex_update current = Inr ''{ari}''"

definition ex_update_fails :: "bytes \<Rightarrow> err + bytes" where
  "ex_update_fails current = Inl (Opaque ''no update'')"

text \<open>
  An environment that sets the storage mode variable to \<open>BUNDLE\<close> and nothing else, a
  number parser for it (the rollout variable is unset, so every parse gives 0), and a
  stand-in for the Unicode lower-casing, which no ASCII value reaches.
\<close>

definition ex_env_upper :: "string \<Rightarrow> string" where
  "ex_env_upper name = (if name = StorageModeEnv then ''BUNDLE'' else [])"

definition ex_atoi :: "string \<Rightarrow> int" where
  "ex_atoi s = 0"

definition ex_unicode_lower :: "string \<Rightarrow> string" where
  "ex_unicode_lower s = s"

text \<open>
  A lease configuration in seconds, and a storage whose lease renewal succeeds.
\<close>

definition ex_lease_config :: lease_config where
  "ex_lease_config =
     \<lparr>retryIntervals = [60, 120, 300], maxRetryDuration = 21600, CertObtainTimeout = 90\<rparr>"

definition ex_renew :: "string \<Rightarrow> int \<Rightarrow> err + unit" where
  "ex_renew lockKey leaseDuration = Inr ()"

section \<open>Basic facts\<close>

subsection \<open>The concrete encoding is read back\<close>

lemma dec_enc_nat [simp]: "dec_nat (enc_nat n @ r) = Some (n, r)"
proof -
  have d: "dropWhile (\<lambda>c. c = CHR ''1'') (replicate n CHR ''1'' @ CHR ''0'' # r) = CHR ''0'' # r"
    by (induction n) simp_all
  have t: "takeWhile (\<lambda>c. c = CHR ''1'') (replicate n CHR ''1'' @ CHR ''0'' # r)
           = replicate n CHR ''1''"
    by (induction n) simp_all
  show ?thesis by (simp add: dec_nat_def enc_nat_def d t)
qed

lemma dec_enc_int [simp]: "dec_int (enc_int i @ r) = Some (i, r)"
  by (simp add: dec_int_def enc_int_def)

lemma dec_enc_str [simp]: "dec_str (enc_str s @ r) = Some (s, r)"
  by (simp add: dec_str_def enc_str_def)

lemma dec_enc_strs [simp]: "dec_strs (length xs) (concat (map enc_str xs) @ r) = Some (xs, r)"
  by (induction xs) simp_all

lemma dec_enc_list [simp]: "dec_list (enc_list xs @ r) = Some (xs, r)"
  by (simp add: dec_list_def enc_list_def)

lemma dec_enc_int_nil [simp]: "dec_int (enc_int i) = Some (i, [])"
  using dec_enc_int [of i "[]"] by simp

lemma dec_enc_str_nil [simp]: "dec_str (enc_str s) = Some (s, [])"
  using dec_enc_str [of s "[]"] by simp

lemma ex_bundle_roundtrip: "ex_MarshalBundle b = Inr bs \<Longrightarrow> ex_UnmarshalBundle bs = Inr b"
  by (auto simp: ex_MarshalBundle_def ex_UnmarshalBundle_def dec_bundle_def)



lemmas mode_names = StorageModeLegacy_def StorageModeTransition_def StorageModeBundle_def

lemmas ex_simps = ex_deps_def ex_ToASCII_def ex_MarshalBundle_def ex_UnmarshalBundle_def
  ex_MarshalResource_def ex_UnmarshalResource_def dec_bundle_def dec_meta_def dec_list_def
  dec_str_def dec_int_def dec_nat_def enc_list_def enc_str_def enc_int_def enc_nat_def
  no_faults_def storage_Load_def storage_Store_def storage_Exists_def storage_Delete_def
  storeTx_def mode_names BundleVersion_def IsZero_def log_to_def ex_resource_def
  ex_legacy_items_def ex_legacy_only_def ex_undecodable_def ex_bundle_bytes_def ex_bundled_def
  ex_delete_faults_def ex_legacy_undeletable_def ex_all_faults_def ex_nothing_deletable_def
  ex_zero_created_bytes_def ex_zero_created_def ex_empty_def ex_update_def
  ex_update_fails_def

subsection \<open>The storage capability\<close>

lemma storage_Store_faults [simp]:
  "load_fault (snd (storage_Store s k v)) = load_fault s"
  "store_fault (snd (storage_Store s k v)) = store_fault s"
  "delete_fault (snd (storage_Store s k v)) = delete_fault s"
  by (simp_all add: storage_Store_def split: option.splits)

lemma storage_Delete_faults [simp]:
  "load_fault (snd (storage_Delete s k)) = load_fault s"
  "store_fault (snd (storage_Delete s k)) = store_fault s"
  "delete_fault (snd (storage_Delete s k)) = delete_fault s"
  by (simp_all add: storage_Delete_def split: option.splits)

lemma storage_Store_Inr:
  "storage_Store s k v = (Inr u, s') \<Longrightarrow> s' = s\<lparr>items := (items s)(k \<mapsto> v)\<rparr>"
  by (auto simp: storage_Store_def split: option.splits)

lemma storeTx3_Inr:
  assumes "storeTx s [(k1, v1), (k2, v2), (k3, v3)] = (Inr u, s')"
  shows "s' = s\<lparr>items := (items s)(k1 \<mapsto> v1, k2 \<mapsto> v2, k3 \<mapsto> v3)\<rparr>"
  using assms
  by (auto simp: storeTx_def storage_Store_def split: option.splits prod.splits sum.splits)

lemma deleteLegacyLoop_frame:
  "k \<notin> set keys \<Longrightarrow> items (storage (deleteLegacyLoop cs keys)) k = items (storage cs) k"
proof (induction keys arbitrary: cs)
  case Nil
  then show ?case by simp
next
  case (Cons key keys)
  then show ?case
    by (auto simp: log_to_def storage_Delete_def split: prod.splits sum.splits option.splits)
qed

lemma deleteLegacyLoop_static:
  "load_fault (storage (deleteLegacyLoop cs keys)) = load_fault (storage cs)
   \<and> store_fault (storage (deleteLegacyLoop cs keys)) = store_fault (storage cs)
   \<and> delete_fault (storage (deleteLegacyLoop cs keys)) = delete_fault (storage cs)
   \<and> mode (deleteLegacyLoop cs keys) = mode cs"
proof (induction keys arbitrary: cs)
  case Nil
  then show ?case by simp
next
  case (Cons key keys)
  then show ?case
    by (auto simp: log_to_def storage_Delete_def split: prod.splits sum.splits option.splits)
qed

lemma deleteLegacyLoop_absent:
  "items (storage cs) k = None \<Longrightarrow> items (storage (deleteLegacyLoop cs keys)) k = None"
proof (induction keys arbitrary: cs)
  case Nil
  then show ?case by simp
next
  case (Cons key keys)
  then show ?case
    by (auto simp: log_to_def storage_Delete_def split: prod.splits sum.splits option.splits)
qed

lemma deleteLegacyLoop_removes:
  "k \<in> set keys \<Longrightarrow> delete_fault (storage cs) k = None \<Longrightarrow>
   items (storage (deleteLegacyLoop cs keys)) k = None"
proof (induction keys arbitrary: cs)
  case Nil
  then show ?case by simp
next
  case (Cons key keys)
  show ?case
  proof (cases "key = k")
    case True
    then show ?thesis
      using Cons.prems
      by (auto simp: log_to_def storage_Delete_def storage_Exists_def
          intro!: deleteLegacyLoop_absent split: prod.splits sum.splits option.splits)
  next
    case False
    with Cons.prems have "k \<in> set keys" by simp
    then show ?thesis
      using Cons.IH Cons.prems(2)
      by (auto simp: log_to_def storage_Delete_def split: prod.splits sum.splits option.splits)
  qed
qed

section \<open>Properties of the rollout resolver\<close>

lemma RolloutBucketForDomain_range:
  "0 \<le> RolloutBucketForDomain domain \<and> RolloutBucketForDomain domain < 100"
proof -
  have "fnv32a domain mod 100 < (100 :: 32 word)"
    by (rule word_mod_less_divisor) simp
  then have "uint (fnv32a domain mod 100) < uint (100 :: 32 word)"
    by (simp add: word_less_def)
  then show ?thesis
    by (simp add: RolloutBucketForDomain_def)
qed

lemma RolloutBucket_cyufsv: "RolloutBucketForDomain ''cyufsv.com'' = 0"
  by code_simp

lemma RolloutBucket_wrgmsg: "RolloutBucketForDomain ''wrgmsg.com'' = 1"
  by code_simp

text \<open>
  C1. For every domain and every integer rollout percentage \<open>p\<close>: under global mode
  bundle the resolver returns bundle; under a global mode that is neither bundle nor
  transition it returns legacy; under global mode transition it returns transition
  exactly when \<open>fnv32a(domain) mod 100 < p\<close>, and legacy otherwise. So a domain whose
  bucket equals \<open>p\<close> resolves to legacy, \<open>p = 0\<close> sends every domain to legacy and
  \<open>p = 100\<close> sends every domain to transition.
\<close>

theorem StorageModeForDomain_resolution:
  "(let g = ConfigureStorageMode m p;
        bucket = uint (fnv32a domain mod 100)
    in (m = StorageModeBundle \<longrightarrow> StorageModeForDomain g domain = StorageModeBundle)
     \<and> (m \<noteq> StorageModeBundle \<and> m \<noteq> StorageModeTransition \<longrightarrow>
          StorageModeForDomain g domain = StorageModeLegacy)
     \<and> (m = StorageModeTransition \<longrightarrow>
          (StorageModeForDomain g domain = StorageModeTransition \<longleftrightarrow> bucket < p)
        \<and> (StorageModeForDomain g domain = StorageModeLegacy \<longleftrightarrow> \<not> bucket < p)
        \<and> (bucket = p \<longrightarrow> StorageModeForDomain g domain = StorageModeLegacy)
        \<and> (p = 0 \<longrightarrow> StorageModeForDomain g domain = StorageModeLegacy)
        \<and> (p = 100 \<longrightarrow> StorageModeForDomain g domain = StorageModeTransition)))"
proof -
  have range: "0 \<le> uint (fnv32a domain mod 100) \<and> uint (fnv32a domain mod 100) < 100"
    using RolloutBucketForDomain_range [of domain]
    by (simp add: RolloutBucketForDomain_def)
  show ?thesis
    using range
    by (auto simp: Let_def StorageModeForDomain_def ConfigureStorageMode_def
        RolloutBucketForDomain_def StorageModeBundle_def StorageModeTransition_def
        StorageModeLegacy_def)
qed

theorem StorageModeForDomain_resolution_witness:
  "StorageModeForDomain (ConfigureStorageMode ''bundle'' 0) ''cyufsv.com'' = ''bundle''
   \<and> StorageModeForDomain (ConfigureStorageMode ''BUNDLE'' 100) ''cyufsv.com'' = ''legacy''
   \<and> StorageModeForDomain (ConfigureStorageMode ''transition'' 1) ''cyufsv.com'' = ''transition''
   \<and> StorageModeForDomain (ConfigureStorageMode ''transition'' 1) ''wrgmsg.com'' = ''legacy''
   \<and> StorageModeForDomain (ConfigureStorageMode ''transition'' 0) ''cyufsv.com'' = ''legacy''
   \<and> StorageModeForDomain (ConfigureStorageMode ''transition'' 100) ''wrgmsg.com'' = ''transition''"
proof -
  have b0: "uint (fnv32a ''cyufsv.com'' mod 100) = 0"
    using RolloutBucket_cyufsv by (simp add: RolloutBucketForDomain_def)
  have b1: "uint (fnv32a ''wrgmsg.com'' mod 100) = 1"
    using RolloutBucket_wrgmsg by (simp add: RolloutBucketForDomain_def)
  show ?thesis
    using StorageModeForDomain_resolution [of "''bundle''" 0 "''cyufsv.com''"]
      StorageModeForDomain_resolution [of "''BUNDLE''" 100 "''cyufsv.com''"]
      StorageModeForDomain_resolution [of "''transition''" 1 "''cyufsv.com''"]
      StorageModeForDomain_resolution [of "''transition''" 1 "''wrgmsg.com''"]
      StorageModeForDomain_resolution [of "''transition''" 0 "''cyufsv.com''"]
      StorageModeForDomain_resolution [of "''transition''" 100 "''wrgmsg.com''"]
    by (simp add: Let_def b0 b1 StorageModeBundle_def StorageModeTransition_def
        StorageModeLegacy_def)
qed

section \<open>Properties of the certificate store\<close>

text \<open>
  C2 (as amended). In transition or bundle mode \<open>Load\<close> first asks the storage for the
  bundle key. When that load fails, for whatever reason and in particular when the key
  is absent, \<open>Load\<close> returns the result of the legacy three-key read. When the bundle
  key loads, \<open>Load\<close> returns the result of decoding it: the decoded resource, or the
  decode error when the payload does not decode, with no legacy read.
\<close>

theorem Load_bundle_then_legacy:
  assumes "mode cs = StorageModeTransition \<or> mode cs = StorageModeBundle"
    and "ToASCII d name = Inr n"
  shows "(\<forall>e. storage_Load (storage cs) (SiteBundle d issuer n) = Inl e \<longrightarrow>
            Load d cs issuer name = (loadLegacy d cs issuer n, cs))
       \<and> (\<forall>data e. storage_Load (storage cs) (SiteBundle d issuer n) = Inr data
              \<and> UnmarshalBundle d data = Inl e \<longrightarrow>
            Load d cs issuer name = (Inl (Errorf ''decoding certificate bundle'' e), cs))
       \<and> (\<forall>data b. storage_Load (storage cs) (SiteBundle d issuer n) = Inr data
              \<and> UnmarshalBundle d data = Inr b \<longrightarrow>
            fst (Load d cs issuer name) =
              Inr \<lparr>SANs = CertificateBundle.SANs b,
                   CertificatePEM = CertificateBundle.CertificatePEM b,
                   PrivateKeyPEM = CertificateBundle.PrivateKeyPEM b,
                   IssuerData = CertificateBundle.IssuerData b,
                   issuerKey = issuer\<rparr>)"
  using assms
  by (auto simp: Load_def decodeBundle_def mode_names Let_def)

theorem Load_bundle_then_legacy_witness:
  "Load ex_deps (ex_legacy_only ''transition'') ''ca'' ''a.com''
     = (loadLegacy ex_deps (ex_legacy_only ''transition'') ''ca'' ''a.com'',
        ex_legacy_only ''transition'')
   \<and> Load ex_deps (ex_undecodable ''bundle'') ''ca'' ''a.com''
     = (Inl (Errorf ''decoding certificate bundle'' (Opaque ''malformed bundle'')),
        ex_undecodable ''bundle'')
   \<and> fst (Load ex_deps (ex_bundled ''bundle'') ''ca'' ''a.com'')
     = Inr \<lparr>SANs = [''a.com''], CertificatePEM = ''C2'', PrivateKeyPEM = ''K2'',
            IssuerData = ''{}'', issuerKey = ''ca''\<rparr>"
proof -
  have m1: "mode (ex_legacy_only ''transition'') = StorageModeTransition
            \<or> mode (ex_legacy_only ''transition'') = StorageModeBundle"
    by (simp add: ex_simps)
  have m2: "mode (ex_undecodable ''bundle'') = StorageModeTransition
            \<or> mode (ex_undecodable ''bundle'') = StorageModeBundle"
    by (simp add: ex_simps)
  have m3: "mode (ex_bundled ''bundle'') = StorageModeTransition
            \<or> mode (ex_bundled ''bundle'') = StorageModeBundle"
    by (simp add: ex_simps)
  have a: "ToASCII ex_deps ''a.com'' = Inr ''a.com''"
    by (simp add: ex_simps)
  have l1: "storage_Load (storage (ex_legacy_only ''transition''))
              (SiteBundle ex_deps ''ca'' ''a.com'') = Inl ErrNotExist"
    by (simp add: ex_simps)
  have l2: "storage_Load (storage (ex_undecodable ''bundle''))
              (SiteBundle ex_deps ''ca'' ''a.com'') = Inr ''garbage''
            \<and> UnmarshalBundle ex_deps ''garbage'' = Inl (Opaque ''malformed bundle'')"
    by (simp add: ex_simps)
  have l3: "storage_Load (storage (ex_bundled ''bundle''))
              (SiteBundle ex_deps ''ca'' ''a.com'') = Inr ex_bundle_bytes
            \<and> UnmarshalBundle ex_deps ex_bundle_bytes =
                Inr \<lparr>Version = 1, CertificateBundle.SANs = [''a.com''],
                     CertificateBundle.CertificatePEM = ''C2'',
                     CertificateBundle.PrivateKeyPEM = ''K2'',
                     CertificateBundle.IssuerData = ''{}'', CreatedAt = 3, UpdatedAt = 5\<rparr>"
    by (simp add: ex_simps)
  show ?thesis
    using Load_bundle_then_legacy [OF m1 a, of "''ca''"]
      Load_bundle_then_legacy [OF m2 a, of "''ca''"]
      Load_bundle_then_legacy [OF m3 a, of "''ca''"] l1 l2 l3
    by simp
qed

theorem Load_decode_failure_counterexample:
  "storage_Load (storage (ex_undecodable ''transition'')) (SiteBundle ex_deps ''ca'' ''a.com'')
     = Inr ''garbage''
   \<and> UnmarshalBundle ex_deps ''garbage'' = Inl (Opaque ''malformed bundle'')
   \<and> loadLegacy ex_deps (ex_undecodable ''transition'') ''ca'' ''a.com'' = Inr ex_resource
   \<and> fst (Load ex_deps (ex_undecodable ''transition'') ''ca'' ''a.com'')
       = Inl (Errorf ''decoding certificate bundle'' (Opaque ''malformed bundle''))
   \<and> fst (Load ex_deps (ex_undecodable ''bundle'') ''ca'' ''a.com'')
       = Inl (Errorf ''decoding certificate bundle'' (Opaque ''malformed bundle''))
   \<and> fst (Load ex_deps (ex_undecodable ''transition'') ''ca'' ''a.com'')
       \<noteq> loadLegacy ex_deps (ex_undecodable ''transition'') ''ca'' ''a.com''"
  by (simp add: Load_def decodeBundle_def loadLegacy_def ex_simps)

lemma saveLegacy_mode:
  "saveLegacy d (cs\<lparr>mode := m\<rparr>) issuer certKey res
     = (fst (saveLegacy d cs issuer certKey res),
        (snd (saveLegacy d cs issuer certKey res))\<lparr>mode := m\<rparr>)"
  by (simp add: saveLegacy_def Let_def split: sum.splits prod.splits)

text \<open>
  C10. A store whose mode is none of the three names behaves as a store in legacy mode
  on \<open>Save\<close>, \<open>Load\<close>, \<open>Exists\<close> and \<open>LoadPrivateKey\<close>, for every storage state and
  input: the results are equal, and so are the stores left behind, up to the mode
  field itself.
\<close>

theorem unknown_mode_is_legacy:
  assumes "m \<noteq> StorageModeLegacy" and "m \<noteq> StorageModeTransition"
    and "m \<noteq> StorageModeBundle"
  shows "Save d now (cs\<lparr>mode := m\<rparr>) issuer res
           = (fst (Save d now (cs\<lparr>mode := StorageModeLegacy\<rparr>) issuer res),
              (snd (Save d now (cs\<lparr>mode := StorageModeLegacy\<rparr>) issuer res))\<lparr>mode := m\<rparr>)
       \<and> Load d (cs\<lparr>mode := m\<rparr>) issuer name
           = (fst (Load d (cs\<lparr>mode := StorageModeLegacy\<rparr>) issuer name),
              (snd (Load d (cs\<lparr>mode := StorageModeLegacy\<rparr>) issuer name))\<lparr>mode := m\<rparr>)
       \<and> Exists d (cs\<lparr>mode := m\<rparr>) issuer name
           = Exists d (cs\<lparr>mode := StorageModeLegacy\<rparr>) issuer name
       \<and> LoadPrivateKey d (cs\<lparr>mode := m\<rparr>) issuer name
           = LoadPrivateKey d (cs\<lparr>mode := StorageModeLegacy\<rparr>) issuer name"
proof -
  have save: "Save d now (cs\<lparr>mode := m\<rparr>) issuer res
           = (fst (Save d now (cs\<lparr>mode := StorageModeLegacy\<rparr>) issuer res),
              (snd (Save d now (cs\<lparr>mode := StorageModeLegacy\<rparr>) issuer res))\<lparr>mode := m\<rparr>)"
    using assms by (simp add: Save_def Let_def saveLegacy_mode)
  have load: "Load d (cs\<lparr>mode := m\<rparr>) issuer name
           = (fst (Load d (cs\<lparr>mode := StorageModeLegacy\<rparr>) issuer name),
              (snd (Load d (cs\<lparr>mode := StorageModeLegacy\<rparr>) issuer name))\<lparr>mode := m\<rparr>)"
    using assms by (auto simp: Load_def loadLegacy_def split: sum.splits)
  have ex: "Exists d (cs\<lparr>mode := m\<rparr>) issuer name
           = Exists d (cs\<lparr>mode := StorageModeLegacy\<rparr>) issuer name"
    using assms by (auto simp: Exists_def legacyExists_def split: sum.splits)
  have key: "LoadPrivateKey d (cs\<lparr>mode := m\<rparr>) issuer name
           = LoadPrivateKey d (cs\<lparr>mode := StorageModeLegacy\<rparr>) issuer name"
    using assms by (auto simp: LoadPrivateKey_def split: sum.splits)
  from save load ex key show ?thesis by simp
qed

theorem unknown_mode_is_legacy_witness:
  "fst (Load ex_deps (ex_bundled ''BUNDLE'') ''ca'' ''a.com'') = Inr ex_resource
   \<and> fst (Load ex_deps (ex_bundled ''legacy'') ''ca'' ''a.com'') = Inr ex_resource
   \<and> Exists ex_deps (ex_bundled ''BUNDLE'') ''ca'' ''a.com''
   \<and> LoadPrivateKey ex_deps (ex_bundled ''BUNDLE'') ''ca'' ''a.com'' = Inr ''K''
   \<and> fst (Save ex_deps 7 (ex_bundled ''BUNDLE'') ''ca'' ex_resource) = Inr ()
   \<and> items (storage (snd (Save ex_deps 7 (ex_bundled ''BUNDLE'') ''ca'' ex_resource)))
        ''ca/a.com.bundle'' = Some ex_bundle_bytes"
proof -
  have neq: "''BUNDLE'' \<noteq> StorageModeLegacy" "''BUNDLE'' \<noteq> StorageModeTransition"
    "''BUNDLE'' \<noteq> StorageModeBundle"
    by (simp_all add: mode_names)
  have upd: "(ex_bundled ''legacy'')\<lparr>mode := ''BUNDLE''\<rparr> = ex_bundled ''BUNDLE''"
    "(ex_bundled ''legacy'')\<lparr>mode := StorageModeLegacy\<rparr> = ex_bundled ''legacy''"
    by (simp_all add: ex_bundled_def mode_names)
  have legacy_load: "fst (Load ex_deps (ex_bundled ''legacy'') ''ca'' ''a.com'') = Inr ex_resource"
    by (simp add: Load_def loadLegacy_def ex_simps)
  have legacy_exists: "Exists ex_deps (ex_bundled ''legacy'') ''ca'' ''a.com''"
    by (simp add: Exists_def legacyExists_def ex_simps)
  have legacy_key: "LoadPrivateKey ex_deps (ex_bundled ''legacy'') ''ca'' ''a.com'' = Inr ''K''"
    by (simp add: LoadPrivateKey_def ex_simps)
  have legacy_save: "fst (Save ex_deps 7 (ex_bundled ''legacy'') ''ca'' ex_resource) = Inr ()
    \<and> items (storage (snd (Save ex_deps 7 (ex_bundled ''legacy'') ''ca'' ex_resource)))
        ''ca/a.com.bundle'' = Some ex_bundle_bytes"
    by (simp add: Save_def saveLegacy_def ex_simps)
  show ?thesis
    using unknown_mode_is_legacy [OF neq, of ex_deps 7 "ex_bundled ''legacy''" "''ca''" ex_resource
        "''a.com''"]
      legacy_load legacy_exists legacy_key legacy_save
    by (simp add: upd)
qed

lemma deleteLegacyLoop_mode:
  "deleteLegacyLoop (cs\<lparr>mode := m\<rparr>) keys = (deleteLegacyLoop cs keys)\<lparr>mode := m\<rparr>"
proof (induction keys arbitrary: cs)
  case Nil
  then show ?case by simp
next
  case (Cons key keys)
  have "log_to (c\<lparr>mode := m, storage := st\<rparr>) e = (log_to (c\<lparr>storage := st\<rparr>) e)\<lparr>mode := m\<rparr>"
    for c st e
    by (simp add: log_to_def)
  then show ?case
    using Cons.IH by (simp split: prod.splits sum.splits)
qed

lemma deleteLegacyLoop_kept:
  "delete_fault (storage cs) k \<noteq> None \<Longrightarrow>
   items (storage (deleteLegacyLoop cs keys)) k = items (storage cs) k"
proof (induction keys arbitrary: cs)
  case Nil
  then show ?case by simp
next
  case (Cons key keys)
  then show ?case
    by (auto simp: log_to_def storage_Delete_def split: prod.splits sum.splits option.splits)
qed

lemma deleteLegacyLoop_logger_prefix:
  "\<exists>es. logger (deleteLegacyLoop cs keys) = logger cs @ es"
proof (induction keys arbitrary: cs)
  case Nil
  then show ?case by simp
next
  case (Cons key keys)
  show ?case
  proof (cases "storage_Exists (storage cs) key")
    case False
    then show ?thesis using Cons.IH [of cs] by simp
  next
    case True
    obtain r st where del: "storage_Delete (storage cs) key = (r, st)"
      by (cases "storage_Delete (storage cs) key")
    show ?thesis
    proof (cases r)
      case (Inl e)
      with True del Cons.IH [of "log_to (cs\<lparr>storage := st\<rparr>) (DebugLevel, ''could not delete legacy file'', [key])"]
      show ?thesis by (auto simp: log_to_def)
    next
      case (Inr u)
      with True del Cons.IH [of "log_to (cs\<lparr>storage := st\<rparr>) (DebugLevel, ''deleted legacy file'', [key])"]
      show ?thesis by (auto simp: log_to_def)
    qed
  qed
qed

lemma Delete_result:
  assumes "ToASCII d domain = Inr n"
  shows "fst (Delete d cs issuer domain) =
           (if storage_Exists (storage cs) (SiteBundle d issuer n)
            then (case delete_fault (storage cs) (SiteBundle d issuer n) of
                    None \<Rightarrow> Inr ()
                  | Some e \<Rightarrow> Inl (Join [Errorf ''deleting bundle'' e]))
            else Inr ())"
  using assms
  by (auto simp: Delete_def Let_def storage_Delete_def split: option.splits prod.splits sum.splits)

lemma Delete_final_store:
  assumes "ToASCII d domain = Inr n"
  shows "snd (Delete d cs issuer domain) =
           (let cs1 = (if storage_Exists (storage cs) (SiteBundle d issuer n)
                       then cs\<lparr>storage := snd (storage_Delete (storage cs) (SiteBundle d issuer n))\<rparr>
                       else cs);
                cs2 = deleteLegacyFiles d cs1 issuer n;
                p = CertsSitePrefix d issuer n
            in if storage_Exists (storage cs2) p
               then (case storage_Delete (storage cs2) p of
                       (Inl e, st) \<Rightarrow>
                         log_to (cs2\<lparr>storage := st\<rparr>)
                           (DebugLevel, ''could not delete site folder'', [p])
                     | (Inr _, st) \<Rightarrow> cs2\<lparr>storage := st\<rparr>)
               else cs2)"
proof (cases "storage_Exists (storage cs) (SiteBundle d issuer n)")
  case False
  then show ?thesis
    using assms by (simp add: Delete_def Let_def)
next
  case True
  obtain r st where del: "storage_Delete (storage cs) (SiteBundle d issuer n) = (r, st)"
    by (cases "storage_Delete (storage cs) (SiteBundle d issuer n)")
  show ?thesis
    using assms True del by (cases r) (simp_all add: Delete_def Let_def)
qed

lemma Delete_mode:
  assumes "ToASCII d domain = Inr n"
  shows "Delete d (cs\<lparr>mode := m\<rparr>) issuer domain
           = (fst (Delete d cs issuer domain), (snd (Delete d cs issuer domain))\<lparr>mode := m\<rparr>)"
proof (rule prod_eqI)
  show "fst (Delete d (cs\<lparr>mode := m\<rparr>) issuer domain)
        = fst (fst (Delete d cs issuer domain), (snd (Delete d cs issuer domain))\<lparr>mode := m\<rparr>)"
    by (simp add: Delete_result [OF assms])
next
  define cs1 where "cs1 = (if storage_Exists (storage cs) (SiteBundle d issuer n)
                   then cs\<lparr>storage := snd (storage_Delete (storage cs) (SiteBundle d issuer n))\<rparr>
                   else cs)"
  define cs2 where "cs2 = deleteLegacyFiles d cs1 issuer n"
  define p where "p = CertsSitePrefix d issuer n"
  have one: "(if storage_Exists (storage (cs\<lparr>mode := m\<rparr>)) (SiteBundle d issuer n)
              then cs\<lparr>mode := m\<rparr>\<lparr>storage := snd (storage_Delete (storage (cs\<lparr>mode := m\<rparr>))
                      (SiteBundle d issuer n))\<rparr>
              else cs\<lparr>mode := m\<rparr>) = cs1\<lparr>mode := m\<rparr>"
    by (simp add: cs1_def)
  have two: "deleteLegacyFiles d (cs1\<lparr>mode := m\<rparr>) issuer n = cs2\<lparr>mode := m\<rparr>"
    by (simp add: cs2_def deleteLegacyFiles_def deleteLegacyLoop_mode)
  have lhs: "snd (Delete d (cs\<lparr>mode := m\<rparr>) issuer domain) =
           (if storage_Exists (storage cs2) p
            then (case storage_Delete (storage cs2) p of
                    (Inl e, st) \<Rightarrow>
                      log_to (cs2\<lparr>mode := m\<rparr>\<lparr>storage := st\<rparr>)
                        (DebugLevel, ''could not delete site folder'', [p])
                  | (Inr _, st) \<Rightarrow> cs2\<lparr>mode := m\<rparr>\<lparr>storage := st\<rparr>)
            else cs2\<lparr>mode := m\<rparr>)"
    unfolding Delete_final_store [OF assms] Let_def one two p_def by simp
  have rhs: "snd (Delete d cs issuer domain) =
           (if storage_Exists (storage cs2) p
            then (case storage_Delete (storage cs2) p of
                    (Inl e, st) \<Rightarrow>
                      log_to (cs2\<lparr>storage := st\<rparr>)
                        (DebugLevel, ''could not delete site folder'', [p])
                  | (Inr _, st) \<Rightarrow> cs2\<lparr>storage := st\<rparr>)
            else cs2)"
    unfolding Delete_final_store [OF assms] Let_def cs1_def cs2_def p_def ..
  obtain r st where del: "storage_Delete (storage cs2) p = (r, st)"
    by (cases "storage_Delete (storage cs2) p")
  show "snd (Delete d (cs\<lparr>mode := m\<rparr>) issuer domain)
        = snd (fst (Delete d cs issuer domain), (snd (Delete d cs issuer domain))\<lparr>mode := m\<rparr>)"
    unfolding lhs rhs del by (cases r) (simp_all add: log_to_def)
qed

text \<open>
  C5 (as amended). \<open>Delete\<close> works the same in every mode. It attempts the removal of
  the bundle key and of each of the three legacy keys, going on after a failure: each
  of these keys whose deletion does not fail is absent afterwards. The error returned is
  the failure to delete the bundle key, joined alone, and nothing else: failures to
  delete legacy keys are only logged, as is the failure to remove the site prefix, and
  none of them makes \<open>Delete\<close> return an error.
\<close>

theorem Delete_reports_bundle_failure_only:
  assumes "ToASCII d domain = Inr n"
  shows "fst (Delete d cs issuer domain) =
           (if storage_Exists (storage cs) (SiteBundle d issuer n)
            then (case delete_fault (storage cs) (SiteBundle d issuer n) of
                    None \<Rightarrow> Inr ()
                  | Some e \<Rightarrow> Inl (Join [Errorf ''deleting bundle'' e]))
            else Inr ())
       \<and> (\<forall>k \<in> {SiteBundle d issuer n, SiteCert d issuer n, SitePrivateKey d issuer n,
                  SiteMeta d issuer n}.
            delete_fault (storage cs) k = None \<longrightarrow>
            \<not> storage_Exists (storage (snd (Delete d cs issuer domain))) k)
       \<and> Delete d (cs\<lparr>mode := m\<rparr>) issuer domain
           = (fst (Delete d cs issuer domain), (snd (Delete d cs issuer domain))\<lparr>mode := m\<rparr>)
       \<and> (\<forall>e. storage_Exists (storage cs) (CertsSitePrefix d issuer n)
              \<and> delete_fault (storage cs) (CertsSitePrefix d issuer n) = Some e \<longrightarrow>
            (DebugLevel, ''could not delete site folder'', [CertsSitePrefix d issuer n])
              \<in> set (logger (snd (Delete d cs issuer domain))))"
proof -
  define bk where "bk = SiteBundle d issuer n"
  define cs1 where "cs1 = (if storage_Exists (storage cs) bk
                   then cs\<lparr>storage := snd (storage_Delete (storage cs) bk)\<rparr> else cs)"
  define cs2 where "cs2 = deleteLegacyFiles d cs1 issuer n"
  define p where "p = CertsSitePrefix d issuer n"
  define legacy where "legacy = [SiteCert d issuer n, SitePrivateKey d issuer n, SiteMeta d issuer n]"
  have cs2_loop: "cs2 = deleteLegacyLoop cs1 legacy"
    by (simp add: cs2_def deleteLegacyFiles_def legacy_def)
  have final: "snd (Delete d cs issuer domain) =
           (if storage_Exists (storage cs2) p
            then (case storage_Delete (storage cs2) p of
                    (Inl e, st) \<Rightarrow>
                      log_to (cs2\<lparr>storage := st\<rparr>) (DebugLevel, ''could not delete site folder'', [p])
                  | (Inr _, st) \<Rightarrow> cs2\<lparr>storage := st\<rparr>)
            else cs2)"
    using Delete_final_store [OF assms, of cs issuer]
    unfolding Let_def cs1_def cs2_def p_def bk_def .
  have faults1: "delete_fault (storage cs1) = delete_fault (storage cs)"
    by (simp add: cs1_def)
  have faults2: "delete_fault (storage cs2) = delete_fault (storage cs)"
    using deleteLegacyLoop_static [of cs1 legacy] faults1 by (simp add: cs2_loop)
  have last_step: "items (storage cs2) k = None \<Longrightarrow>
                   items (storage (snd (Delete d cs issuer domain))) k = None" for k
  proof -
    assume none: "items (storage cs2) k = None"
    obtain r st where del: "storage_Delete (storage cs2) p = (r, st)"
      by (cases "storage_Delete (storage cs2) p")
    then have st: "items st k = None"
      using none by (auto simp: storage_Delete_def split: option.splits)
    show ?thesis
      unfolding final del using none st by (cases r) (simp_all add: log_to_def)
  qed
  have part1: "fst (Delete d cs issuer domain) =
           (if storage_Exists (storage cs) (SiteBundle d issuer n)
            then (case delete_fault (storage cs) (SiteBundle d issuer n) of
                    None \<Rightarrow> Inr ()
                  | Some e \<Rightarrow> Inl (Join [Errorf ''deleting bundle'' e]))
            else Inr ())"
    by (rule Delete_result [OF assms])
  have bundle_gone: "items (storage (snd (Delete d cs issuer domain))) bk = None"
    if "delete_fault (storage cs) bk = None"
  proof -
    have "items (storage cs1) bk = None"
      using that by (auto simp: cs1_def storage_Exists_def storage_Delete_def)
    then have "items (storage cs2) bk = None"
      unfolding cs2_loop by (rule deleteLegacyLoop_absent)
    then show ?thesis by (rule last_step)
  qed
  have legacy_gone: "items (storage (snd (Delete d cs issuer domain))) k = None"
    if "k \<in> set legacy" and "delete_fault (storage cs) k = None" for k
  proof -
    have "items (storage cs2) k = None"
      unfolding cs2_loop using that faults1 by (auto intro: deleteLegacyLoop_removes)
    then show ?thesis by (rule last_step)
  qed
  have part2: "\<forall>k \<in> {SiteBundle d issuer n, SiteCert d issuer n, SitePrivateKey d issuer n,
                  SiteMeta d issuer n}.
            delete_fault (storage cs) k = None \<longrightarrow>
            \<not> storage_Exists (storage (snd (Delete d cs issuer domain))) k"
    using bundle_gone legacy_gone
    by (auto simp: storage_Exists_def bk_def legacy_def)
  have part3: "Delete d (cs\<lparr>mode := m\<rparr>) issuer domain
           = (fst (Delete d cs issuer domain), (snd (Delete d cs issuer domain))\<lparr>mode := m\<rparr>)"
    by (rule Delete_mode [OF assms])
  have part4: "(DebugLevel, ''could not delete site folder'', [p])
              \<in> set (logger (snd (Delete d cs issuer domain)))"
    if ex: "storage_Exists (storage cs) p" and fault: "delete_fault (storage cs) p = Some e" for e
  proof -
    have "items (storage cs1) p = items (storage cs) p"
      using fault by (auto simp: cs1_def storage_Delete_def split: option.splits)
    moreover have "items (storage cs2) p = items (storage cs1) p"
      unfolding cs2_loop using fault faults1 by (auto intro: deleteLegacyLoop_kept)
    ultimately have "storage_Exists (storage cs2) p"
      using ex by (simp add: storage_Exists_def)
    then show ?thesis
      using fault faults2
      by (auto simp: final log_to_def storage_Delete_def)
  qed
  show ?thesis
    using part1 part2 part3 part4 unfolding p_def by blast
qed

theorem Delete_reports_bundle_failure_only_witness:
  "fst (Delete ex_deps (ex_legacy_undeletable ''bundle'') ''ca'' ''a.com'') = Inr ()
   \<and> \<not> storage_Exists (storage (snd (Delete ex_deps (ex_legacy_undeletable ''bundle'') ''ca''
          ''a.com''))) ''ca/a.com.bundle''
   \<and> \<not> storage_Exists (storage (snd (Delete ex_deps (ex_legacy_undeletable ''bundle'') ''ca''
          ''a.com''))) ''ca/a.com.key''
   \<and> \<not> storage_Exists (storage (snd (Delete ex_deps (ex_legacy_undeletable ''bundle'') ''ca''
          ''a.com''))) ''ca/a.com.json''
   \<and> (DebugLevel, ''could not delete site folder'', [''ca/a.com''])
        \<in> set (logger (snd (Delete ex_deps (ex_legacy_undeletable ''bundle'') ''ca'' ''a.com'')))
   \<and> fst (Delete ex_deps (ex_nothing_deletable ''legacy'') ''ca'' ''a.com'')
        = Inl (Join [Errorf ''deleting bundle'' (Opaque ''io'')])"
proof -
  have a: "ToASCII ex_deps ''a.com'' = Inr ''a.com''"
    by (simp add: ex_simps)
  have s1: "storage_Exists (storage (ex_legacy_undeletable ''bundle'')) ''ca/a.com.bundle''
      \<and> delete_fault (storage (ex_legacy_undeletable ''bundle'')) ''ca/a.com.bundle'' = None
      \<and> delete_fault (storage (ex_legacy_undeletable ''bundle'')) ''ca/a.com.key'' = None
      \<and> delete_fault (storage (ex_legacy_undeletable ''bundle'')) ''ca/a.com.json'' = None
      \<and> storage_Exists (storage (ex_legacy_undeletable ''bundle'')) ''ca/a.com''
      \<and> delete_fault (storage (ex_legacy_undeletable ''bundle'')) ''ca/a.com'' = Some (Opaque ''io'')"
    by (simp add: ex_simps)
  have s2: "storage_Exists (storage (ex_nothing_deletable ''legacy'')) ''ca/a.com.bundle''
      \<and> delete_fault (storage (ex_nothing_deletable ''legacy'')) ''ca/a.com.bundle''
          = Some (Opaque ''io'')"
    by (simp add: ex_simps)
  have keys: "SiteBundle ex_deps ''ca'' ''a.com'' = ''ca/a.com.bundle''"
    "SiteCert ex_deps ''ca'' ''a.com'' = ''ca/a.com.crt''"
    "SitePrivateKey ex_deps ''ca'' ''a.com'' = ''ca/a.com.key''"
    "SiteMeta ex_deps ''ca'' ''a.com'' = ''ca/a.com.json''"
    "CertsSitePrefix ex_deps ''ca'' ''a.com'' = ''ca/a.com''"
    by (simp_all add: ex_deps_def)
  show ?thesis
    using Delete_reports_bundle_failure_only [OF a, of "ex_legacy_undeletable ''bundle''" "''ca''" "''bundle''"]
      Delete_reports_bundle_failure_only [OF a, of "ex_nothing_deletable ''legacy''" "''ca''" "''legacy''"]
      s1 s2
    by (simp add: keys)
qed

theorem Delete_legacy_failure_counterexample:
  "storage_Exists (storage (ex_legacy_undeletable ''legacy'')) ''ca/a.com.crt''
   \<and> storage_Delete (storage (ex_legacy_undeletable ''legacy'')) ''ca/a.com.crt''
       = (Inl (Opaque ''io''), storage (ex_legacy_undeletable ''legacy''))
   \<and> fst (Delete ex_deps (ex_legacy_undeletable ''legacy'') ''ca'' ''a.com'') = Inr ()
   \<and> storage_Exists (storage (snd (Delete ex_deps (ex_legacy_undeletable ''legacy'') ''ca''
        ''a.com''))) ''ca/a.com.crt''
   \<and> fst (Delete ex_deps (ex_nothing_deletable ''legacy'') ''ca'' ''a.com'')
       = Inl (Join [Errorf ''deleting bundle'' (Opaque ''io'')])"
  by (simp add: Delete_def deleteLegacyFiles_def Let_def ex_simps)

section \<open>Properties of the lock lease renewer\<close>

text \<open>
  C8. For every attempt number the lease duration requested by the renewal is the retry
  interval of that attempt plus the certificate obtain timeout: at attempt 0 the first
  configured interval plus the timeout, and at every attempt past the interval table the
  maximum retry duration plus the timeout.
\<close>

theorem lease_duration_by_attempt:
  "snd (renewLockLease cfg (Some renew) lockKey n)
     = Some (lockKey, retryInterval cfg n + CertObtainTimeout cfg)
   \<and> (retryIntervals cfg \<noteq> [] \<longrightarrow>
        snd (renewLockLease cfg (Some renew) lockKey 0)
          = Some (lockKey, hd (retryIntervals cfg) + CertObtainTimeout cfg))
   \<and> (n < length (retryIntervals cfg) \<longrightarrow>
        snd (renewLockLease cfg (Some renew) lockKey n)
          = Some (lockKey, retryIntervals cfg ! n + CertObtainTimeout cfg))
   \<and> (length (retryIntervals cfg) \<le> n \<longrightarrow>
        snd (renewLockLease cfg (Some renew) lockKey n)
          = Some (lockKey, maxRetryDuration cfg + CertObtainTimeout cfg))"
  by (auto simp: renewLockLease_def retryInterval_def Let_def hd_conv_nth)

theorem lease_duration_by_attempt_witness:
  "snd (renewLockLease ex_lease_config (Some ex_renew) ''test-lock'' 0) = Some (''test-lock'', 150)
   \<and> snd (renewLockLease ex_lease_config (Some ex_renew) ''test-lock'' 2) = Some (''test-lock'', 390)
   \<and> snd (renewLockLease ex_lease_config (Some ex_renew) ''test-lock'' 999)
       = Some (''test-lock'', 21690)"
  using lease_duration_by_attempt [of ex_lease_config ex_renew "''test-lock''" 0]
    lease_duration_by_attempt [of ex_lease_config ex_renew "''test-lock''" 2]
    lease_duration_by_attempt [of ex_lease_config ex_renew "''test-lock''" 999]
  by (simp add: ex_lease_config_def retryInterval_def)

section \<open>Properties of the mode taken from the environment\<close>

lemma ascii_lower_chars:
  "ascii_lower CHR ''B'' = CHR ''b''"
  "ascii_lower CHR ''U'' = CHR ''u''"
  "ascii_lower CHR ''N'' = CHR ''n''"
  "ascii_lower CHR ''D'' = CHR ''d''"
  "ascii_lower CHR ''L'' = CHR ''l''"
  "ascii_lower CHR ''E'' = CHR ''e''"
  by code_simp+

text \<open>
  C9 (as amended). The mode a new store takes from the environment, \<open>GetStorageMode\<close>,
  is one of the three names, is case-insensitive over them, and is legacy for every
  empty, absent or unrecognised value. The package-level mode set at startup by
  \<open>init\<close> is the environment value as it is: the resolution of a domain recognises
  only the exact names bundle and transition, and resolves every other value to legacy.
\<close>

theorem storage_mode_from_environment:
  "GetStorageMode ul getenv \<in> {StorageModeLegacy, StorageModeTransition, StorageModeBundle}
   \<and> (\<forall>name \<in> {StorageModeLegacy, StorageModeTransition, StorageModeBundle}.
        (\<forall>c \<in> set (getenv StorageModeEnv). of_char c < (128::nat))
        \<and> map ascii_lower (getenv StorageModeEnv) = name \<longrightarrow>
        GetStorageMode ul getenv = name)
   \<and> (ToLower ul (getenv StorageModeEnv)
          \<notin> {StorageModeLegacy, StorageModeTransition, StorageModeBundle} \<longrightarrow>
        GetStorageMode ul getenv = StorageModeLegacy)
   \<and> (getenv StorageModeEnv = [] \<longrightarrow> GetStorageMode ul getenv = StorageModeLegacy)
   \<and> StorageMode (init getenv atoi) = getenv StorageModeEnv
   \<and> (StorageModeForDomain (init getenv atoi) domain = StorageModeBundle
        \<longleftrightarrow> getenv StorageModeEnv = StorageModeBundle)
   \<and> (getenv StorageModeEnv \<noteq> StorageModeBundle
        \<and> getenv StorageModeEnv \<noteq> StorageModeTransition \<longrightarrow>
        StorageModeForDomain (init getenv atoi) domain = StorageModeLegacy)"
proof -
  have a: "GetStorageMode ul getenv \<in> {StorageModeLegacy, StorageModeTransition, StorageModeBundle}"
    by (simp add: GetStorageMode_def Let_def)
  have b: "\<forall>name \<in> {StorageModeLegacy, StorageModeTransition, StorageModeBundle}.
        (\<forall>c \<in> set (getenv StorageModeEnv). of_char c < (128::nat))
        \<and> map ascii_lower (getenv StorageModeEnv) = name \<longrightarrow>
        GetStorageMode ul getenv = name"
    by (auto simp: GetStorageMode_def ToLower_def Let_def)
  have c: "ToLower ul (getenv StorageModeEnv)
          \<notin> {StorageModeLegacy, StorageModeTransition, StorageModeBundle} \<longrightarrow>
        GetStorageMode ul getenv = StorageModeLegacy"
    by (simp add: GetStorageMode_def Let_def)
  have d: "getenv StorageModeEnv = [] \<longrightarrow> GetStorageMode ul getenv = StorageModeLegacy"
    by (simp add: GetStorageMode_def ToLower_def Let_def mode_names)
  have e: "StorageMode (init getenv atoi) = getenv StorageModeEnv"
    by (simp add: init_def ConfigureStorageMode_def Let_def)
  have f: "StorageModeForDomain (init getenv atoi) domain = StorageModeBundle
        \<longleftrightarrow> getenv StorageModeEnv = StorageModeBundle"
    by (simp add: StorageModeForDomain_def e mode_names)
  have g: "getenv StorageModeEnv \<noteq> StorageModeBundle
        \<and> getenv StorageModeEnv \<noteq> StorageModeTransition \<longrightarrow>
        StorageModeForDomain (init getenv atoi) domain = StorageModeLegacy"
    by (simp add: StorageModeForDomain_def e)
  from a b c d e f g show ?thesis by blast
qed

theorem storage_mode_from_environment_witness:
  "GetStorageMode ex_unicode_lower ex_env_upper = ''bundle''
   \<and> StorageMode (init ex_env_upper ex_atoi) = ''BUNDLE''
   \<and> StorageModeForDomain (init ex_env_upper ex_atoi) ''example.com'' = ''legacy''"
proof -
  have v: "ex_env_upper StorageModeEnv = ''BUNDLE''"
    by (simp add: ex_env_upper_def)
  have ascii: "\<forall>c \<in> set ''BUNDLE''. of_char c < (128::nat)"
    by simp
  show ?thesis
    using storage_mode_from_environment [of ex_unicode_lower ex_env_upper ex_atoi "''example.com''"]
      ascii
    by (simp add: v ascii_lower_chars mode_names)
qed

theorem init_case_sensitive_counterexample:
  "ex_env_upper StorageModeEnv = ''BUNDLE''
   \<and> StorageMode (init ex_env_upper ex_atoi) = ''BUNDLE''
   \<and> StorageMode (init ex_env_upper ex_atoi) \<noteq> StorageModeBundle
   \<and> StorageModeForDomain (init ex_env_upper ex_atoi) ''example.com'' = StorageModeLegacy
   \<and> GetStorageMode ex_unicode_lower ex_env_upper = StorageModeBundle"
  by (simp add: init_def ConfigureStorageMode_def StorageModeForDomain_def GetStorageMode_def
      ToLower_def ascii_lower_chars ex_env_upper_def ex_atoi_def Let_def mode_names)

lemma saveBundle_eq:
  "saveBundle d now cs issuer certKey res =
     (case MarshalBundle d (written_bundle d now cs issuer certKey res) of
        Inl e \<Rightarrow> (Inl (Errorf ''encoding certificate bundle'' e), cs)
      | Inr bundleBytes \<Rightarrow>
          (case storage_Store (storage cs) (SiteBundle d issuer certKey) bundleBytes of
             (Inl e, st) \<Rightarrow> (Inl (Errorf ''storing certificate bundle'' e), cs\<lparr>storage := st\<rparr>)
           | (Inr _, st) \<Rightarrow> (Inr (), cs\<lparr>storage := st\<rparr>)))"
proof -
  have b: "(let bundle = \<lparr>Version = BundleVersion,
                     CertificateBundle.SANs = SANs res,
                     CertificateBundle.CertificatePEM = CertificatePEM res,
                     CertificateBundle.PrivateKeyPEM = PrivateKeyPEM res,
                     CertificateBundle.IssuerData = IssuerData res,
                     CreatedAt = 0,
                     UpdatedAt = now\<rparr>;
          bundle1 = (case storage_Load (storage cs) (SiteBundle d issuer certKey) of
                       Inr existingData \<Rightarrow>
                         (case UnmarshalBundle d existingData of
                            Inr existing \<Rightarrow> bundle\<lparr>CreatedAt := CreatedAt existing\<rparr>
                          | Inl _ \<Rightarrow> bundle)
                     | Inl _ \<Rightarrow> bundle)
      in (if IsZero (CreatedAt bundle1)
                     then bundle1\<lparr>CreatedAt := UpdatedAt bundle1\<rparr> else bundle1))
       = written_bundle d now cs issuer certKey res"
    by (simp add: written_bundle_def Let_def IsZero_def split: sum.splits)
  show ?thesis
    unfolding saveBundle_def b [symmetric] by (simp add: Let_def)
qed

lemma saveBundle_Inr:
  assumes "saveBundle d now cs issuer certKey res = (Inr u, cs')"
  shows "\<exists>bs. MarshalBundle d (written_bundle d now cs issuer certKey res) = Inr bs
           \<and> cs' = cs\<lparr>storage := (storage cs)\<lparr>items :=
                      (items (storage cs))(SiteBundle d issuer certKey \<mapsto> bs)\<rparr>\<rparr>"
  using assms unfolding saveBundle_eq
  by (auto simp: storage_Store_def split: sum.splits prod.splits option.splits)

text \<open>
  C6 (as amended). Every successful bundle write stores the encoding of a bundle whose
  \<open>UpdatedAt\<close> is the time of the write. If a prior bundle loads and decodes at the same
  key and its \<open>CreatedAt\<close> is not the zero time, the written \<open>CreatedAt\<close> is the prior
  one; if its \<open>CreatedAt\<close> is the zero time, or no prior bundle loads and decodes, the
  written \<open>CreatedAt\<close> equals the new \<open>UpdatedAt\<close>.
\<close>

theorem saveBundle_timestamps:
  assumes "saveBundle d now cs issuer certKey res = (Inr (), cs')"
  shows "\<exists>b bs. MarshalBundle d b = Inr bs
           \<and> items (storage cs') (SiteBundle d issuer certKey) = Some bs
           \<and> UpdatedAt b = now
           \<and> (\<forall>data prior. storage_Load (storage cs) (SiteBundle d issuer certKey) = Inr data
                  \<and> UnmarshalBundle d data = Inr prior \<and> \<not> IsZero (CreatedAt prior) \<longrightarrow>
                CreatedAt b = CreatedAt prior)
           \<and> (\<forall>data prior. storage_Load (storage cs) (SiteBundle d issuer certKey) = Inr data
                  \<and> UnmarshalBundle d data = Inr prior \<and> IsZero (CreatedAt prior) \<longrightarrow>
                CreatedAt b = UpdatedAt b)
           \<and> ((\<forall>data prior. storage_Load (storage cs) (SiteBundle d issuer certKey) = Inr data
                  \<longrightarrow> UnmarshalBundle d data \<noteq> Inr prior) \<longrightarrow>
                CreatedAt b = UpdatedAt b)
           \<and> Version b = BundleVersion
           \<and> CertificateBundle.SANs b = SANs res
           \<and> CertificateBundle.CertificatePEM b = CertificatePEM res
           \<and> CertificateBundle.PrivateKeyPEM b = PrivateKeyPEM res
           \<and> CertificateBundle.IssuerData b = IssuerData res"
proof -
  define b where "b = written_bundle d now cs issuer certKey res"
  obtain bs where bs: "MarshalBundle d b = Inr bs"
    and cs': "cs' = cs\<lparr>storage := (storage cs)\<lparr>items :=
                      (items (storage cs))(SiteBundle d issuer certKey \<mapsto> bs)\<rparr>\<rparr>"
    using saveBundle_Inr [OF assms] unfolding b_def by blast
  have stored: "items (storage cs') (SiteBundle d issuer certKey) = Some bs"
    by (simp add: cs')
  have upd: "UpdatedAt b = now"
    by (simp add: b_def written_bundle_def)
  have kept: "CreatedAt b = CreatedAt prior"
    if "storage_Load (storage cs) (SiteBundle d issuer certKey) = Inr data"
      and "UnmarshalBundle d data = Inr prior" and "\<not> IsZero (CreatedAt prior)" for data prior
    using that by (simp add: b_def written_bundle_def)
  have zero: "CreatedAt b = UpdatedAt b"
    if "storage_Load (storage cs) (SiteBundle d issuer certKey) = Inr data"
      and "UnmarshalBundle d data = Inr prior" and "IsZero (CreatedAt prior)" for data prior
    using that by (simp add: b_def written_bundle_def)
  have fresh: "CreatedAt b = UpdatedAt b"
    if "\<forall>data prior. storage_Load (storage cs) (SiteBundle d issuer certKey) = Inr data
          \<longrightarrow> UnmarshalBundle d data \<noteq> Inr prior"
    using that by (auto simp: b_def written_bundle_def split: sum.splits)
  have fields: "Version b = BundleVersion \<and> CertificateBundle.SANs b = SANs res
      \<and> CertificateBundle.CertificatePEM b = CertificatePEM res
      \<and> CertificateBundle.PrivateKeyPEM b = PrivateKeyPEM res
      \<and> CertificateBundle.IssuerData b = IssuerData res"
    by (simp add: b_def written_bundle_def)
  show ?thesis
    using bs stored upd kept zero fresh fields by blast
qed

theorem saveBundle_timestamps_witness:
  "\<exists>b bs. MarshalBundle ex_deps b = Inr bs
     \<and> items (storage (snd (saveBundle ex_deps 9 (ex_bundled ''bundle'') ''ca'' ''a.com''
            ex_resource))) ''ca/a.com.bundle'' = Some bs
     \<and> UpdatedAt b = 9 \<and> CreatedAt b = 3"
proof -
  have ok: "fst (saveBundle ex_deps 9 (ex_bundled ''bundle'') ''ca'' ''a.com'' ex_resource) = Inr ()"
    by (simp add: saveBundle_def ex_simps)
  then have h: "saveBundle ex_deps 9 (ex_bundled ''bundle'') ''ca'' ''a.com'' ex_resource
      = (Inr (), snd (saveBundle ex_deps 9 (ex_bundled ''bundle'') ''ca'' ''a.com'' ex_resource))"
    by (metis prod.collapse)
  have prior: "storage_Load (storage (ex_bundled ''bundle'')) (SiteBundle ex_deps ''ca'' ''a.com'')
        = Inr ex_bundle_bytes
      \<and> UnmarshalBundle ex_deps ex_bundle_bytes =
          Inr \<lparr>Version = 1, CertificateBundle.SANs = [''a.com''],
               CertificateBundle.CertificatePEM = ''C2'',
               CertificateBundle.PrivateKeyPEM = ''K2'',
               CertificateBundle.IssuerData = ''{}'', CreatedAt = 3, UpdatedAt = 5\<rparr>"
    by (simp add: ex_simps)
  have key: "SiteBundle ex_deps ''ca'' ''a.com'' = ''ca/a.com.bundle''"
    by (simp add: ex_deps_def)
  obtain b bs where "MarshalBundle ex_deps b = Inr bs"
    and "items (storage (snd (saveBundle ex_deps 9 (ex_bundled ''bundle'') ''ca'' ''a.com''
            ex_resource))) (SiteBundle ex_deps ''ca'' ''a.com'') = Some bs"
    and "UpdatedAt b = 9"
    and "\<forall>data prior. storage_Load (storage (ex_bundled ''bundle''))
              (SiteBundle ex_deps ''ca'' ''a.com'') = Inr data
            \<and> UnmarshalBundle ex_deps data = Inr prior \<and> \<not> IsZero (CreatedAt prior) \<longrightarrow>
          CreatedAt b = CreatedAt prior"
    using saveBundle_timestamps [OF h] by blast
  then show ?thesis
    using prior by (auto simp: key IsZero_def)
qed

theorem saveBundle_zero_created_counterexample:
  "storage_Load (storage (ex_zero_created ''bundle'')) (SiteBundle ex_deps ''ca'' ''a.com'')
     = Inr ex_zero_created_bytes
   \<and> UnmarshalBundle ex_deps ex_zero_created_bytes =
       Inr \<lparr>Version = 1, CertificateBundle.SANs = [''a.com''],
            CertificateBundle.CertificatePEM = ''C2'',
            CertificateBundle.PrivateKeyPEM = ''K2'',
            CertificateBundle.IssuerData = ''{}'', CreatedAt = 0, UpdatedAt = 5\<rparr>
   \<and> fst (saveBundle ex_deps 9 (ex_zero_created ''bundle'') ''ca'' ''a.com'' ex_resource) = Inr ()
   \<and> items (storage (snd (saveBundle ex_deps 9 (ex_zero_created ''bundle'') ''ca'' ''a.com''
          ex_resource))) ''ca/a.com.bundle''
       = Some ''+1010111110a.com10C10K110{}+1111111110+1111111110''
   \<and> UnmarshalBundle ex_deps ''+1010111110a.com10C10K110{}+1111111110+1111111110'' =
       Inr \<lparr>Version = 1, CertificateBundle.SANs = [''a.com''],
            CertificateBundle.CertificatePEM = ''C'',
            CertificateBundle.PrivateKeyPEM = ''K'',
            CertificateBundle.IssuerData = ''{}'', CreatedAt = 9, UpdatedAt = 9\<rparr>"
  by (simp add: saveBundle_def ex_simps eval_nat_numeral)

lemma loadLegacy_Inr:
  assumes "loadLegacy d cs issuer n = Inr r"
  shows "\<exists>keyBytes certBytes metaBytes.
           storage_Load (storage cs) (SitePrivateKey d issuer n) = Inr keyBytes
         \<and> storage_Load (storage cs) (SiteCert d issuer n) = Inr certBytes
         \<and> storage_Load (storage cs) (SiteMeta d issuer n) = Inr metaBytes
         \<and> UnmarshalResource d metaBytes
              \<lparr>SANs = [], CertificatePEM = certBytes, PrivateKeyPEM = keyBytes,
               IssuerData = [], issuerKey = issuer\<rparr> = Inr r"
  using assms
  by (auto simp: loadLegacy_def Let_def split: sum.splits)

lemma storage_Load_Inr_Exists:
  "storage_Load s k = Inr v \<Longrightarrow> storage_Exists s k"
  by (auto simp: storage_Load_def storage_Exists_def split: option.splits)

text \<open>
  C4. \<open>Migrate\<close> is idempotent. If a bundle already exists at the bundle key of the
  identity, it returns success and leaves the store as it is. Hence on a domain with a
  legacy certificate that loads and encodes, over a storage that does not fail on the
  keys involved, the first \<open>Migrate\<close> succeeds and leaves the bundle key and none of the
  three legacy keys, and a second \<open>Migrate\<close> succeeds and changes nothing.
\<close>

theorem Migrate_idempotent:
  assumes "ToASCII d domain = Inr n"
  shows "(storage_Exists (storage cs) (SiteBundle d issuer n) \<longrightarrow>
            Migrate d now cs issuer domain = (Inr (), cs))
       \<and> (\<not> storage_Exists (storage cs) (SiteBundle d issuer n)
            \<and> loadLegacy d cs issuer n = Inr r
            \<and> (\<forall>b. CertificateBundle.SANs b = SANs r
                   \<and> CertificateBundle.CertificatePEM b = CertificatePEM r
                   \<and> CertificateBundle.PrivateKeyPEM b = PrivateKeyPEM r
                   \<and> CertificateBundle.IssuerData b = IssuerData r \<longrightarrow>
                 (\<exists>bs. MarshalBundle d b = Inr bs))
            \<and> store_fault (storage cs) (SiteBundle d issuer n) = None
            \<and> (\<forall>k \<in> {SiteCert d issuer n, SitePrivateKey d issuer n, SiteMeta d issuer n}.
                 delete_fault (storage cs) k = None \<and> k \<noteq> SiteBundle d issuer n) \<longrightarrow>
            fst (Migrate d now cs issuer domain) = Inr ()
          \<and> storage_Exists (storage (snd (Migrate d now cs issuer domain))) (SiteBundle d issuer n)
          \<and> \<not> storage_Exists (storage (snd (Migrate d now cs issuer domain))) (SiteCert d issuer n)
          \<and> \<not> storage_Exists (storage (snd (Migrate d now cs issuer domain)))
                (SitePrivateKey d issuer n)
          \<and> \<not> storage_Exists (storage (snd (Migrate d now cs issuer domain))) (SiteMeta d issuer n)
          \<and> Migrate d now' (snd (Migrate d now cs issuer domain)) issuer domain
              = (Inr (), snd (Migrate d now cs issuer domain)))"
proof (intro conjI impI)
  assume "storage_Exists (storage cs) (SiteBundle d issuer n)"
  then show "Migrate d now cs issuer domain = (Inr (), cs)"
    using assms by (simp add: Migrate_def)
next
  define bk where "bk = SiteBundle d issuer n"
  define legacy where "legacy = [SiteCert d issuer n, SitePrivateKey d issuer n, SiteMeta d issuer n]"
  assume h: "\<not> storage_Exists (storage cs) (SiteBundle d issuer n)
            \<and> loadLegacy d cs issuer n = Inr r
            \<and> (\<forall>b. CertificateBundle.SANs b = SANs r
                   \<and> CertificateBundle.CertificatePEM b = CertificatePEM r
                   \<and> CertificateBundle.PrivateKeyPEM b = PrivateKeyPEM r
                   \<and> CertificateBundle.IssuerData b = IssuerData r \<longrightarrow>
                 (\<exists>bs. MarshalBundle d b = Inr bs))
            \<and> store_fault (storage cs) (SiteBundle d issuer n) = None
            \<and> (\<forall>k \<in> {SiteCert d issuer n, SitePrivateKey d issuer n, SiteMeta d issuer n}.
                 delete_fault (storage cs) k = None \<and> k \<noteq> SiteBundle d issuer n)"
  then have absent: "\<not> storage_Exists (storage cs) bk"
    and legacy_ok: "loadLegacy d cs issuer n = Inr r"
    and no_store_fault: "store_fault (storage cs) bk = None"
    and keys: "\<forall>k \<in> set legacy. delete_fault (storage cs) k = None \<and> k \<noteq> bk"
    by (simp_all add: bk_def legacy_def)
  have "CertificateBundle.SANs (written_bundle d now cs issuer n r) = SANs r
      \<and> CertificateBundle.CertificatePEM (written_bundle d now cs issuer n r) = CertificatePEM r
      \<and> CertificateBundle.PrivateKeyPEM (written_bundle d now cs issuer n r) = PrivateKeyPEM r
      \<and> CertificateBundle.IssuerData (written_bundle d now cs issuer n r) = IssuerData r"
    by (simp add: written_bundle_def)
  with h obtain bs where enc: "MarshalBundle d (written_bundle d now cs issuer n r) = Inr bs"
    by blast
  define csb where "csb = cs\<lparr>storage := (storage cs)\<lparr>items := (items (storage cs))(bk \<mapsto> bs)\<rparr>\<rparr>"
  have saved: "saveBundle d now cs issuer n r = (Inr (), csb)"
    using enc no_store_fault
    by (simp add: saveBundle_eq storage_Store_def csb_def bk_def)
  have cert_exists: "storage_Exists (storage cs) (SiteCert d issuer n)"
    using loadLegacy_Inr [OF legacy_ok] by (auto intro: storage_Load_Inr_Exists)
  define cs1 where "cs1 = log_to (deleteLegacyFiles d csb issuer n)
      (InfoLevel, ''migrated certificate to bundle format'', [domain, issuer])"
  have first: "Migrate d now cs issuer domain = (Inr (), cs1)"
    using assms absent cert_exists legacy_ok saved
    by (simp add: Migrate_def cs1_def bk_def)
  have st1: "storage cs1 = storage (deleteLegacyLoop csb legacy)"
    by (simp add: cs1_def log_to_def deleteLegacyFiles_def legacy_def)
  have "bk \<notin> set legacy"
    using keys by auto
  then have "items (storage cs1) bk = items (storage csb) bk"
    unfolding st1 by (rule deleteLegacyLoop_frame)
  then have bundle_there: "storage_Exists (storage cs1) bk"
    by (simp add: csb_def storage_Exists_def)
  have faults: "delete_fault (storage csb) = delete_fault (storage cs)"
    by (simp add: csb_def)
  have gone: "\<not> storage_Exists (storage cs1) k" if "k \<in> set legacy" for k
  proof -
    have "delete_fault (storage csb) k = None"
      using keys that faults by simp
    with that have "items (storage (deleteLegacyLoop csb legacy)) k = None"
      by (rule deleteLegacyLoop_removes)
    then show ?thesis
      by (simp add: st1 storage_Exists_def)
  qed
  have second: "Migrate d now' cs1 issuer domain = (Inr (), cs1)"
    using assms bundle_there by (simp add: Migrate_def bk_def)
  show "fst (Migrate d now cs issuer domain) = Inr ()"
    by (simp add: first)
  show "storage_Exists (storage (snd (Migrate d now cs issuer domain))) (SiteBundle d issuer n)"
    using bundle_there by (simp add: first bk_def)
  show "\<not> storage_Exists (storage (snd (Migrate d now cs issuer domain))) (SiteCert d issuer n)"
    using gone [of "SiteCert d issuer n"] by (simp add: first legacy_def)
  show "\<not> storage_Exists (storage (snd (Migrate d now cs issuer domain)))
                (SitePrivateKey d issuer n)"
    using gone [of "SitePrivateKey d issuer n"] by (simp add: first legacy_def)
  show "\<not> storage_Exists (storage (snd (Migrate d now cs issuer domain))) (SiteMeta d issuer n)"
    using gone [of "SiteMeta d issuer n"] by (simp add: first legacy_def)
  show "Migrate d now' (snd (Migrate d now cs issuer domain)) issuer domain
              = (Inr (), snd (Migrate d now cs issuer domain))"
    using second by (simp add: first)
qed

theorem Migrate_idempotent_witness:
  "Migrate ex_deps 7 (ex_bundled ''legacy'') ''ca'' ''a.com'' = (Inr (), ex_bundled ''legacy'')
   \<and> fst (Migrate ex_deps 7 (ex_legacy_only ''bundle'') ''ca'' ''a.com'') = Inr ()
   \<and> storage_Exists (storage (snd (Migrate ex_deps 7 (ex_legacy_only ''bundle'') ''ca'' ''a.com'')))
        ''ca/a.com.bundle''
   \<and> \<not> storage_Exists (storage (snd (Migrate ex_deps 7 (ex_legacy_only ''bundle'') ''ca''
          ''a.com''))) ''ca/a.com.crt''
   \<and> \<not> storage_Exists (storage (snd (Migrate ex_deps 7 (ex_legacy_only ''bundle'') ''ca''
          ''a.com''))) ''ca/a.com.key''
   \<and> \<not> storage_Exists (storage (snd (Migrate ex_deps 7 (ex_legacy_only ''bundle'') ''ca''
          ''a.com''))) ''ca/a.com.json''
   \<and> Migrate ex_deps 8 (snd (Migrate ex_deps 7 (ex_legacy_only ''bundle'') ''ca'' ''a.com''))
        ''ca'' ''a.com''
       = (Inr (), snd (Migrate ex_deps 7 (ex_legacy_only ''bundle'') ''ca'' ''a.com''))"
proof -
  have a: "ToASCII ex_deps ''a.com'' = Inr ''a.com''"
    by (simp add: ex_simps)
  have keys: "SiteBundle ex_deps ''ca'' ''a.com'' = ''ca/a.com.bundle''"
    "SiteCert ex_deps ''ca'' ''a.com'' = ''ca/a.com.crt''"
    "SitePrivateKey ex_deps ''ca'' ''a.com'' = ''ca/a.com.key''"
    "SiteMeta ex_deps ''ca'' ''a.com'' = ''ca/a.com.json''"
    by (simp_all add: ex_deps_def)
  have there: "storage_Exists (storage (ex_bundled ''legacy'')) ''ca/a.com.bundle''"
    by (simp add: ex_simps)
  have absent: "\<not> storage_Exists (storage (ex_legacy_only ''bundle'')) ''ca/a.com.bundle''"
    by (simp add: ex_simps)
  have legacy: "loadLegacy ex_deps (ex_legacy_only ''bundle'') ''ca'' ''a.com'' = Inr ex_resource"
    by (simp add: loadLegacy_def ex_simps)
  have enc: "\<forall>b. CertificateBundle.SANs b = SANs ex_resource
                   \<and> CertificateBundle.CertificatePEM b = CertificatePEM ex_resource
                   \<and> CertificateBundle.PrivateKeyPEM b = PrivateKeyPEM ex_resource
                   \<and> CertificateBundle.IssuerData b = IssuerData ex_resource \<longrightarrow>
                 (\<exists>bs. MarshalBundle ex_deps b = Inr bs)"
    by (simp add: ex_deps_def ex_MarshalBundle_def)
  have faults: "store_fault (storage (ex_legacy_only ''bundle'')) ''ca/a.com.bundle'' = None
      \<and> delete_fault (storage (ex_legacy_only ''bundle'')) ''ca/a.com.crt'' = None
      \<and> delete_fault (storage (ex_legacy_only ''bundle'')) ''ca/a.com.key'' = None
      \<and> delete_fault (storage (ex_legacy_only ''bundle'')) ''ca/a.com.json'' = None"
    by (simp add: ex_simps)
  show ?thesis
    using Migrate_idempotent [OF a, where cs = "ex_bundled ''legacy''" and issuer = "''ca''"
        and now = 7]
      Migrate_idempotent [OF a, where cs = "ex_legacy_only ''bundle''" and issuer = "''ca''"
        and now = 7 and r = ex_resource and now' = 8]
      there absent legacy enc faults
    unfolding keys by simp
qed

lemma saveLegacy_Inr:
  assumes "saveLegacy d cs issuer certKey res = (Inr u, cs')"
  shows "\<exists>metaBytes.
           MarshalResource d \<lparr>SANs = SANs res, CertificatePEM = [], PrivateKeyPEM = [],
                               IssuerData = IssuerData res, issuerKey = []\<rparr> = Inr metaBytes
         \<and> cs' = cs\<lparr>storage := (storage cs)\<lparr>items :=
                    (items (storage cs))(SitePrivateKey d issuer certKey \<mapsto> PrivateKeyPEM res,
                                         SiteCert d issuer certKey \<mapsto> CertificatePEM res,
                                         SiteMeta d issuer certKey \<mapsto> metaBytes)\<rparr>\<rparr>"
proof (cases "MarshalResource d \<lparr>SANs = SANs res, CertificatePEM = [], PrivateKeyPEM = [],
                               IssuerData = IssuerData res, issuerKey = []\<rparr>")
  case (Inl e)
  with assms show ?thesis by (simp add: saveLegacy_def)
next
  case (Inr metaBytes)
  obtain r st where tx: "storeTx (storage cs)
      [(SitePrivateKey d issuer certKey, PrivateKeyPEM res),
       (SiteCert d issuer certKey, CertificatePEM res),
       (SiteMeta d issuer certKey, metaBytes)] = (r, st)"
    by (cases "storeTx (storage cs)
      [(SitePrivateKey d issuer certKey, PrivateKeyPEM res),
       (SiteCert d issuer certKey, CertificatePEM res),
       (SiteMeta d issuer certKey, metaBytes)]")
  with assms Inr have r: "r = Inr u" and cs': "cs' = cs\<lparr>storage := st\<rparr>"
    by (simp_all add: saveLegacy_def Let_def)
  from tx r have "st = (storage cs)\<lparr>items :=
                    (items (storage cs))(SitePrivateKey d issuer certKey \<mapsto> PrivateKeyPEM res,
                                         SiteCert d issuer certKey \<mapsto> CertificatePEM res,
                                         SiteMeta d issuer certKey \<mapsto> metaBytes)\<rparr>"
    by (simp add: storeTx3_Inr)
  with Inr cs' show ?thesis by simp
qed

lemma loadLegacy_stored:
  assumes "storage_Load (storage cs) (SitePrivateKey d issuer n) = Inr keyBytes"
    and "storage_Load (storage cs) (SiteCert d issuer n) = Inr certBytes"
    and "storage_Load (storage cs) (SiteMeta d issuer n) = Inr metaBytes"
  shows "loadLegacy d cs issuer n =
           (case UnmarshalResource d metaBytes
                   \<lparr>SANs = [], CertificatePEM = certBytes, PrivateKeyPEM = keyBytes,
                    IssuerData = [], issuerKey = issuer\<rparr> of
              Inl e \<Rightarrow> Inl (Errorf ''decoding certificate metadata'' e)
            | Inr certRes \<Rightarrow> Inr certRes)"
  using assms by (simp add: loadLegacy_def Let_def)


lemma Load_bundle_present:
  assumes "mode cs = StorageModeTransition \<or> mode cs = StorageModeBundle"
    and "ToASCII d name = Inr n"
    and "storage_Load (storage cs) (SiteBundle d issuer n) = Inr bs"
    and "UnmarshalBundle d bs = Inr b"
  shows "fst (Load d cs issuer name) =
           Inr \<lparr>SANs = CertificateBundle.SANs b,
                CertificatePEM = CertificateBundle.CertificatePEM b,
                PrivateKeyPEM = CertificateBundle.PrivateKeyPEM b,
                IssuerData = CertificateBundle.IssuerData b,
                issuerKey = issuer\<rparr>"
  using assms by (auto simp: Load_def decodeBundle_def Let_def mode_names)

lemma Load_bundle_absent:
  assumes "mode cs = StorageModeTransition \<or> mode cs = StorageModeBundle"
    and "ToASCII d name = Inr n"
    and "storage_Load (storage cs) (SiteBundle d issuer n) = Inl e"
  shows "Load d cs issuer name = (loadLegacy d cs issuer n, cs)"
  using assms by (auto simp: Load_def mode_names)

lemma storage_Load_item:
  "load_fault s k = None \<Longrightarrow> items s k = Some v \<Longrightarrow> storage_Load s k = Inr v"
  by (simp add: storage_Load_def)


lemma written_bundle_payload:
  "CertificateBundle.SANs (written_bundle d now cs issuer k res) = SANs res"
  "CertificateBundle.CertificatePEM (written_bundle d now cs issuer k res) = CertificatePEM res"
  "CertificateBundle.PrivateKeyPEM (written_bundle d now cs issuer k res) = PrivateKeyPEM res"
  "CertificateBundle.IssuerData (written_bundle d now cs issuer k res) = IssuerData res"
  by (simp_all add: written_bundle_def)




lemma Load_other_mode:
  assumes "mode cs \<noteq> StorageModeTransition" and "mode cs \<noteq> StorageModeBundle"
    and "ToASCII d name = Inr n"
  shows "Load d cs issuer name = (loadLegacy d cs issuer n, cs)"
  using assms by (simp add: Load_def)

lemma Load_storage:
  "storage (snd (Load d cs issuer name)) = storage cs \<and> mode (snd (Load d cs issuer name)) = mode cs"
  by (auto simp: Load_def decodeBundle_def Let_def log_to_def split: sum.splits)

lemma Save_Load_pem:
  assumes saved: "Save d now cs issuer res = (Inr (), cs')"
    and name: "ToASCII d (NamesKey d res) = Inr (NamesKey d res)"
    and keys: "distinct [SiteBundle d issuer (NamesKey d res), SiteCert d issuer (NamesKey d res),
                         SitePrivateKey d issuer (NamesKey d res),
                         SiteMeta d issuer (NamesKey d res)]"
    and loads: "\<forall>key \<in> {SiteBundle d issuer (NamesKey d res), SiteCert d issuer (NamesKey d res),
                         SitePrivateKey d issuer (NamesKey d res),
                         SiteMeta d issuer (NamesKey d res)}.
                  load_fault (storage cs) key = None"
    and bundle_codec: "mode cs = StorageModeTransition \<or> mode cs = StorageModeBundle \<longrightarrow>
        (\<forall>b bs. MarshalBundle d b = Inr bs \<longrightarrow>
            (\<exists>b'. UnmarshalBundle d bs = Inr b'
              \<and> CertificateBundle.CertificatePEM b' = CertificateBundle.CertificatePEM b
              \<and> CertificateBundle.PrivateKeyPEM b' = CertificateBundle.PrivateKeyPEM b))"
    and meta_codec: "mode cs \<noteq> StorageModeTransition \<and> mode cs \<noteq> StorageModeBundle \<longrightarrow>
        (\<forall>x bs r0. MarshalResource d x = Inr bs \<longrightarrow>
            (\<exists>r1. UnmarshalResource d bs r0 = Inr r1
              \<and> CertificatePEM r1 = CertificatePEM r0
              \<and> PrivateKeyPEM r1 = PrivateKeyPEM r0))"
  shows "\<exists>r. fst (Load d cs' issuer (NamesKey d res)) = Inr r
           \<and> CertificatePEM r = CertificatePEM res
           \<and> PrivateKeyPEM r = PrivateKeyPEM res"
proof -
  define k where "k = NamesKey d res"
  define bk where "bk = SiteBundle d issuer k"
  define ck where "ck = SiteCert d issuer k"
  define pk where "pk = SitePrivateKey d issuer k"
  define mk where "mk = SiteMeta d issuer k"
  have dist: "bk \<noteq> ck" "bk \<noteq> pk" "bk \<noteq> mk" "ck \<noteq> pk" "ck \<noteq> mk" "pk \<noteq> mk"
    using keys by (auto simp: bk_def ck_def pk_def mk_def k_def)
  have lf: "load_fault (storage cs) bk = None" "load_fault (storage cs) ck = None"
    "load_fault (storage cs) pk = None" "load_fault (storage cs) mk = None"
    using loads by (simp_all add: bk_def ck_def pk_def mk_def k_def)
  have norm: "ToASCII d k = Inr k"
    using name by (simp add: k_def)
  consider (other) "mode cs \<noteq> StorageModeTransition" "mode cs \<noteq> StorageModeBundle"
    | (in_transition) "mode cs = StorageModeTransition"
    | (in_bundle) "mode cs = StorageModeBundle"
    by auto
  then have "\<exists>r. fst (Load d cs' issuer k) = Inr r
           \<and> CertificatePEM r = CertificatePEM res
           \<and> PrivateKeyPEM r = PrivateKeyPEM res"
  proof cases
    case other
    then have "saveLegacy d cs issuer k res = (Inr (), cs')"
      using saved by (auto simp: Save_def Let_def k_def split: if_splits)
    then obtain mb where
      enc: "MarshalResource d \<lparr>SANs = SANs res, CertificatePEM = [], PrivateKeyPEM = [],
                               IssuerData = IssuerData res, issuerKey = []\<rparr> = Inr mb"
      and cs': "cs' = cs\<lparr>storage := (storage cs)\<lparr>items :=
                    (items (storage cs))(pk \<mapsto> PrivateKeyPEM res, ck \<mapsto> CertificatePEM res,
                                         mk \<mapsto> mb)\<rparr>\<rparr>"
      using saveLegacy_Inr unfolding pk_def ck_def mk_def by blast
    have l1: "storage_Load (storage cs') pk = Inr (PrivateKeyPEM res)"
      using dist lf by (simp add: cs' storage_Load_def)
    have l2: "storage_Load (storage cs') ck = Inr (CertificatePEM res)"
      using dist lf by (simp add: cs' storage_Load_def)
    have l3: "storage_Load (storage cs') mk = Inr mb"
      using dist lf by (simp add: cs' storage_Load_def)
    obtain r1 where dec: "UnmarshalResource d mb
                   \<lparr>SANs = [], CertificatePEM = CertificatePEM res,
                    PrivateKeyPEM = PrivateKeyPEM res, IssuerData = [], issuerKey = issuer\<rparr>
         = Inr r1"
      and pem: "CertificatePEM r1 = CertificatePEM res" "PrivateKeyPEM r1 = PrivateKeyPEM res"
    proof -
      from meta_codec other enc
      have "\<exists>r1. UnmarshalResource d mb
                   \<lparr>SANs = [], CertificatePEM = CertificatePEM res,
                    PrivateKeyPEM = PrivateKeyPEM res, IssuerData = [], issuerKey = issuer\<rparr>
              = Inr r1
            \<and> CertificatePEM r1 = CertificatePEM
                   \<lparr>SANs = [], CertificatePEM = CertificatePEM res,
                    PrivateKeyPEM = PrivateKeyPEM res, IssuerData = [], issuerKey = issuer\<rparr>
            \<and> PrivateKeyPEM r1 = PrivateKeyPEM
                   \<lparr>SANs = [], CertificatePEM = CertificatePEM res,
                    PrivateKeyPEM = PrivateKeyPEM res, IssuerData = [], issuerKey = issuer\<rparr>"
        by blast
      with that show ?thesis by auto
    qed
    have "loadLegacy d cs' issuer k = Inr r1"
      using loadLegacy_stored [of cs' d issuer k, OF l1 [unfolded pk_def] l2 [unfolded ck_def]
          l3 [unfolded mk_def]] dec
      by simp
    moreover have "mode cs' \<noteq> StorageModeTransition" "mode cs' \<noteq> StorageModeBundle"
      using other by (simp_all add: cs')
    ultimately show ?thesis
      using Load_other_mode [OF _ _ norm, of cs' issuer] pem by simp
  next
    case in_transition
    then have "\<exists>cs1. saveBundle d now cs issuer k res = (Inr (), cs1)
                 \<and> saveLegacy d cs1 issuer k res = (Inr (), cs')"
      using saved
      by (auto simp: Save_def Let_def k_def mode_names split: prod.splits sum.splits)
    then obtain cs1 where sb: "saveBundle d now cs issuer k res = (Inr (), cs1)"
      and sl: "saveLegacy d cs1 issuer k res = (Inr (), cs')"
      by blast
    obtain bs where enc: "MarshalBundle d (written_bundle d now cs issuer k res) = Inr bs"
      and cs1: "cs1 = cs\<lparr>storage := (storage cs)\<lparr>items := (items (storage cs))(bk \<mapsto> bs)\<rparr>\<rparr>"
      using saveBundle_Inr [OF sb] unfolding bk_def by blast
    obtain mb where
      cs': "cs' = cs1\<lparr>storage := (storage cs1)\<lparr>items :=
                    (items (storage cs1))(pk \<mapsto> PrivateKeyPEM res, ck \<mapsto> CertificatePEM res,
                                          mk \<mapsto> mb)\<rparr>\<rparr>"
      using saveLegacy_Inr [OF sl] unfolding pk_def ck_def mk_def by blast
    have load: "storage_Load (storage cs') bk = Inr bs"
      using dist lf by (simp add: cs' cs1 storage_Load_def)
    obtain b' where dec: "UnmarshalBundle d bs = Inr b'"
      and pem: "CertificateBundle.CertificatePEM b' = CertificatePEM res"
        "CertificateBundle.PrivateKeyPEM b' = PrivateKeyPEM res"
      using bundle_codec in_transition enc by (fastforce simp: written_bundle_payload)
    have "mode cs' = StorageModeTransition \<or> mode cs' = StorageModeBundle"
      using in_transition by (simp add: cs' cs1)
    from Load_bundle_present [OF this norm load [unfolded bk_def] dec]
    show ?thesis using pem by simp
  next
    case in_bundle
    then have "\<exists>cs1. saveBundle d now cs issuer k res = (Inr (), cs1)
                 \<and> cs' = deleteLegacyFiles d cs1 issuer k"
      using saved
      by (auto simp: Save_def Let_def k_def mode_names split: prod.splits sum.splits)
    then obtain cs1 where sb: "saveBundle d now cs issuer k res = (Inr (), cs1)"
      and cs': "cs' = deleteLegacyLoop cs1 [ck, pk, mk]"
      by (auto simp: deleteLegacyFiles_def ck_def pk_def mk_def)
    obtain bs where enc: "MarshalBundle d (written_bundle d now cs issuer k res) = Inr bs"
      and cs1: "cs1 = cs\<lparr>storage := (storage cs)\<lparr>items := (items (storage cs))(bk \<mapsto> bs)\<rparr>\<rparr>"
      using saveBundle_Inr [OF sb] unfolding bk_def by blast
    have "items (storage cs') bk = items (storage cs1) bk"
      unfolding cs' using dist by (intro deleteLegacyLoop_frame) simp
    moreover have "load_fault (storage cs') = load_fault (storage cs1)" and m: "mode cs' = mode cs1"
      unfolding cs' using deleteLegacyLoop_static [of cs1 "[ck, pk, mk]"] by simp_all
    ultimately have load: "storage_Load (storage cs') bk = Inr bs"
      using lf by (simp add: cs1 storage_Load_def)
    obtain b' where dec: "UnmarshalBundle d bs = Inr b'"
      and pem: "CertificateBundle.CertificatePEM b' = CertificatePEM res"
        "CertificateBundle.PrivateKeyPEM b' = PrivateKeyPEM res"
      using bundle_codec in_bundle enc by (fastforce simp: written_bundle_payload)
    have "mode cs' = StorageModeTransition \<or> mode cs' = StorageModeBundle"
      using in_bundle m by (simp add: cs1)
    from Load_bundle_present [OF this norm load [unfolded bk_def] dec]
    show ?thesis using pem by simp
  qed
  then show ?thesis by (simp add: k_def)
qed

text \<open>
  C7. \<open>UpdateMetadata\<close> changes only the issuer data. If the update function returns an
  error, so does \<open>UpdateMetadata\<close>, and the storage is as before: nothing is written.
  After a successful \<open>UpdateMetadata\<close> the store loads, for the same identity, a
  resource with the certificate bytes and private-key bytes it loaded before the call.
  The resource is filed under its own names key, in normalised form; the four keys of
  the identity are distinct and load without backend failure; and the decoder reads
  back the certificate and key bytes the encoder wrote (from the bundle under
  transition and bundle mode; under the other modes it leaves them as loaded from
  their own keys).
\<close>

theorem UpdateMetadata_frame:
  assumes norm: "ToASCII d domain = Inr n"
    and before: "fst (Load d cs issuer n) = Inr r"
  shows "(\<forall>e. updateFn (IssuerData r) = Inl e \<longrightarrow>
            fst (UpdateMetadata d now cs issuer domain updateFn)
              = Inl (Errorf ''updating metadata'' e)
          \<and> storage (snd (UpdateMetadata d now cs issuer domain updateFn)) = storage cs)
       \<and> (\<forall>i cs'. updateFn (IssuerData r) = Inr i
              \<and> UpdateMetadata d now cs issuer domain updateFn = (Inr (), cs')
              \<and> NamesKey d (r\<lparr>IssuerData := i\<rparr>) = n
              \<and> ToASCII d n = Inr n
              \<and> distinct [SiteBundle d issuer n, SiteCert d issuer n, SitePrivateKey d issuer n,
                           SiteMeta d issuer n]
              \<and> (\<forall>key \<in> {SiteBundle d issuer n, SiteCert d issuer n, SitePrivateKey d issuer n,
                             SiteMeta d issuer n}. load_fault (storage cs) key = None)
              \<and> (mode cs = StorageModeTransition \<or> mode cs = StorageModeBundle \<longrightarrow>
                   (\<forall>b bs. MarshalBundle d b = Inr bs \<longrightarrow>
                     (\<exists>b'. UnmarshalBundle d bs = Inr b'
                        \<and> CertificateBundle.CertificatePEM b' = CertificateBundle.CertificatePEM b
                        \<and> CertificateBundle.PrivateKeyPEM b' = CertificateBundle.PrivateKeyPEM b)))
              \<and> (mode cs \<noteq> StorageModeTransition \<and> mode cs \<noteq> StorageModeBundle \<longrightarrow>
                   (\<forall>x bs r0. MarshalResource d x = Inr bs \<longrightarrow>
                     (\<exists>r1. UnmarshalResource d bs r0 = Inr r1
                        \<and> CertificatePEM r1 = CertificatePEM r0
                        \<and> PrivateKeyPEM r1 = PrivateKeyPEM r0))) \<longrightarrow>
            (\<exists>r'. fst (Load d cs' issuer n) = Inr r'
               \<and> CertificatePEM r' = CertificatePEM r
               \<and> PrivateKeyPEM r' = PrivateKeyPEM r))"
proof (intro conjI allI impI)
  define cs1 where "cs1 = snd (Load d cs issuer n)"
  have loaded: "Load d cs issuer n = (Inr r, cs1)"
    using before unfolding cs1_def by (metis prod.collapse)
  have same: "storage cs1 = storage cs" "mode cs1 = mode cs"
    using Load_storage [of d cs issuer n] by (simp_all add: cs1_def)
  {
    fix e
    assume fails: "updateFn (IssuerData r) = Inl e"
    have um: "UpdateMetadata d now cs issuer domain updateFn
        = (Inl (Errorf ''updating metadata'' e), cs1)"
      using norm loaded fails by (simp add: UpdateMetadata_def)
    show "fst (UpdateMetadata d now cs issuer domain updateFn)
          = Inl (Errorf ''updating metadata'' e)"
      by (simp add: um)
    show "storage (snd (UpdateMetadata d now cs issuer domain updateFn)) = storage cs"
      by (simp add: um same)
  }
  fix i cs'
  assume h: "updateFn (IssuerData r) = Inr i
              \<and> UpdateMetadata d now cs issuer domain updateFn = (Inr (), cs')
              \<and> NamesKey d (r\<lparr>IssuerData := i\<rparr>) = n
              \<and> ToASCII d n = Inr n
              \<and> distinct [SiteBundle d issuer n, SiteCert d issuer n, SitePrivateKey d issuer n,
                           SiteMeta d issuer n]
              \<and> (\<forall>key \<in> {SiteBundle d issuer n, SiteCert d issuer n, SitePrivateKey d issuer n,
                             SiteMeta d issuer n}. load_fault (storage cs) key = None)
              \<and> (mode cs = StorageModeTransition \<or> mode cs = StorageModeBundle \<longrightarrow>
                   (\<forall>b bs. MarshalBundle d b = Inr bs \<longrightarrow>
                     (\<exists>b'. UnmarshalBundle d bs = Inr b'
                        \<and> CertificateBundle.CertificatePEM b' = CertificateBundle.CertificatePEM b
                        \<and> CertificateBundle.PrivateKeyPEM b' = CertificateBundle.PrivateKeyPEM b)))
              \<and> (mode cs \<noteq> StorageModeTransition \<and> mode cs \<noteq> StorageModeBundle \<longrightarrow>
                   (\<forall>x bs r0. MarshalResource d x = Inr bs \<longrightarrow>
                     (\<exists>r1. UnmarshalResource d bs r0 = Inr r1
                        \<and> CertificatePEM r1 = CertificatePEM r0
                        \<and> PrivateKeyPEM r1 = PrivateKeyPEM r0)))"
  define res where "res = r\<lparr>IssuerData := i\<rparr>"
  have nk: "NamesKey d res = n"
    using h by (simp add: res_def)
  from h have upd: "updateFn (IssuerData r) = Inr i"
    and um: "UpdateMetadata d now cs issuer domain updateFn = (Inr (), cs')"
    by blast+
  have saved: "Save d now cs1 issuer res = (Inr (), cs')"
    using um norm loaded upd by (simp add: UpdateMetadata_def res_def)
  have "\<exists>r'. fst (Load d cs' issuer (NamesKey d res)) = Inr r'
           \<and> CertificatePEM r' = CertificatePEM res
           \<and> PrivateKeyPEM r' = PrivateKeyPEM res"
  proof (rule Save_Load_pem [OF saved])
    show "ToASCII d (NamesKey d res) = Inr (NamesKey d res)"
      using h by (simp add: nk)
    show "distinct [SiteBundle d issuer (NamesKey d res), SiteCert d issuer (NamesKey d res),
                    SitePrivateKey d issuer (NamesKey d res),
                    SiteMeta d issuer (NamesKey d res)]"
      using h by (simp add: nk)
    show "\<forall>key \<in> {SiteBundle d issuer (NamesKey d res), SiteCert d issuer (NamesKey d res),
                    SitePrivateKey d issuer (NamesKey d res),
                    SiteMeta d issuer (NamesKey d res)}.
            load_fault (storage cs1) key = None"
      using h by (simp add: nk same)
    show "mode cs1 = StorageModeTransition \<or> mode cs1 = StorageModeBundle \<longrightarrow>
        (\<forall>b bs. MarshalBundle d b = Inr bs \<longrightarrow>
            (\<exists>b'. UnmarshalBundle d bs = Inr b'
              \<and> CertificateBundle.CertificatePEM b' = CertificateBundle.CertificatePEM b
              \<and> CertificateBundle.PrivateKeyPEM b' = CertificateBundle.PrivateKeyPEM b))"
      using h by (simp add: same)
    show "mode cs1 \<noteq> StorageModeTransition \<and> mode cs1 \<noteq> StorageModeBundle \<longrightarrow>
        (\<forall>x bs r0. MarshalResource d x = Inr bs \<longrightarrow>
            (\<exists>r1. UnmarshalResource d bs r0 = Inr r1
              \<and> CertificatePEM r1 = CertificatePEM r0
              \<and> PrivateKeyPEM r1 = PrivateKeyPEM r0))"
      using h by (simp add: same)
  qed
  then show "\<exists>r'. fst (Load d cs' issuer n) = Inr r'
               \<and> CertificatePEM r' = CertificatePEM r
               \<and> PrivateKeyPEM r' = PrivateKeyPEM r"
    unfolding nk by (simp add: res_def)
qed

theorem UpdateMetadata_frame_witness:
  "fst (UpdateMetadata ex_deps 7 (ex_bundled ''transition'') ''ca'' ''a.com'' ex_update_fails)
     = Inl (Errorf ''updating metadata'' (Opaque ''no update''))
   \<and> storage (snd (UpdateMetadata ex_deps 7 (ex_bundled ''transition'') ''ca'' ''a.com''
          ex_update_fails)) = storage (ex_bundled ''transition'')
   \<and> fst (UpdateMetadata ex_deps 7 (ex_legacy_only ''bundle'') ''ca'' ''a.com'' ex_update) = Inr ()
   \<and> (\<exists>r'. fst (Load ex_deps (snd (UpdateMetadata ex_deps 7 (ex_legacy_only ''bundle'') ''ca''
                 ''a.com'' ex_update)) ''ca'' ''a.com'') = Inr r'
         \<and> CertificatePEM r' = ''C'' \<and> PrivateKeyPEM r' = ''K'')"
proof -
  have a: "ToASCII ex_deps ''a.com'' = Inr ''a.com''"
    by (simp add: ex_simps)
  have before1: "fst (Load ex_deps (ex_bundled ''transition'') ''ca'' ''a.com'')
      = Inr \<lparr>SANs = [''a.com''], CertificatePEM = ''C2'', PrivateKeyPEM = ''K2'',
             IssuerData = ''{}'', issuerKey = ''ca''\<rparr>"
    by (simp add: Load_def decodeBundle_def ex_simps)
  have fails: "ex_update_fails (IssuerData \<lparr>SANs = [''a.com''], CertificatePEM = ''C2'',
      PrivateKeyPEM = ''K2'', IssuerData = ''{}'', issuerKey = ''ca''\<rparr>) = Inl (Opaque ''no update'')"
    by (simp add: ex_update_fails_def)
  have part1: "fst (UpdateMetadata ex_deps 7 (ex_bundled ''transition'') ''ca'' ''a.com''
        ex_update_fails) = Inl (Errorf ''updating metadata'' (Opaque ''no update''))
      \<and> storage (snd (UpdateMetadata ex_deps 7 (ex_bundled ''transition'') ''ca'' ''a.com''
          ex_update_fails)) = storage (ex_bundled ''transition'')"
    using UpdateMetadata_frame [OF a before1, where updateFn = ex_update_fails and now = 7] fails
    by blast
  define cs where "cs = ex_legacy_only ''bundle''"
  define cs' where "cs' = snd (UpdateMetadata ex_deps 7 cs ''ca'' ''a.com'' ex_update)"
  have before2: "fst (Load ex_deps cs ''ca'' ''a.com'') = Inr ex_resource"
    by (simp add: cs_def Load_def loadLegacy_def ex_simps)
  have ok: "fst (UpdateMetadata ex_deps 7 cs ''ca'' ''a.com'' ex_update) = Inr ()"
    by (simp add: cs_def UpdateMetadata_def Load_def loadLegacy_def Save_def saveBundle_def
        deleteLegacyFiles_def ex_simps)
  then have um: "UpdateMetadata ex_deps 7 cs ''ca'' ''a.com'' ex_update = (Inr (), cs')"
    unfolding cs'_def by (metis prod.collapse)
  have upd: "ex_update (IssuerData ex_resource) = Inr ''{ari}''"
    by (simp add: ex_update_def)
  have nk: "NamesKey ex_deps (ex_resource\<lparr>IssuerData := ''{ari}''\<rparr>) = ''a.com''"
    by (simp add: ex_deps_def ex_resource_def)
  have keys: "distinct [SiteBundle ex_deps ''ca'' ''a.com'', SiteCert ex_deps ''ca'' ''a.com'',
      SitePrivateKey ex_deps ''ca'' ''a.com'', SiteMeta ex_deps ''ca'' ''a.com'']"
    by (simp add: ex_deps_def)
  have loads: "\<forall>key \<in> {SiteBundle ex_deps ''ca'' ''a.com'', SiteCert ex_deps ''ca'' ''a.com'',
      SitePrivateKey ex_deps ''ca'' ''a.com'', SiteMeta ex_deps ''ca'' ''a.com''}.
      load_fault (storage cs) key = None"
    by (simp add: cs_def ex_legacy_only_def no_faults_def)
  have bundle_codec: "mode cs = StorageModeTransition \<or> mode cs = StorageModeBundle \<longrightarrow>
      (\<forall>b bs. MarshalBundle ex_deps b = Inr bs \<longrightarrow>
         (\<exists>b'. UnmarshalBundle ex_deps bs = Inr b'
            \<and> CertificateBundle.CertificatePEM b' = CertificateBundle.CertificatePEM b
            \<and> CertificateBundle.PrivateKeyPEM b' = CertificateBundle.PrivateKeyPEM b))"
    using ex_bundle_roundtrip by (auto simp: ex_deps_def)
  have meta_codec: "mode cs \<noteq> StorageModeTransition \<and> mode cs \<noteq> StorageModeBundle \<longrightarrow>
      (\<forall>x bs r0. MarshalResource ex_deps x = Inr bs \<longrightarrow>
         (\<exists>r1. UnmarshalResource ex_deps bs r0 = Inr r1
            \<and> CertificatePEM r1 = CertificatePEM r0
            \<and> PrivateKeyPEM r1 = PrivateKeyPEM r0))"
    by (simp add: cs_def ex_legacy_only_def mode_names)
  have "\<exists>r'. fst (Load ex_deps cs' ''ca'' ''a.com'') = Inr r'
          \<and> CertificatePEM r' = CertificatePEM ex_resource
          \<and> PrivateKeyPEM r' = PrivateKeyPEM ex_resource"
    using UpdateMetadata_frame [OF a before2, where updateFn = ex_update and now = 7,
        THEN conjunct2, rule_format, of "''{ari}''" cs']
      upd um nk a keys loads bundle_codec meta_codec
    by blast
  then have part2: "\<exists>r'. fst (Load ex_deps cs' ''ca'' ''a.com'') = Inr r'
          \<and> CertificatePEM r' = ''C'' \<and> PrivateKeyPEM r' = ''K''"
    by (simp add: ex_resource_def)
  show ?thesis
    using part1 ok part2 unfolding cs'_def cs_def by blast
qed

end
